theory Spec2Isabelle
  imports Complex_Main "HOL-Library.Multiset"
begin

section \<open>Sumly: the persistence and aggregation layer (lib/database.ts)\<close>

text \<open>
  A shallow embedding of \<^verbatim>\<open>src/Sumly/lib/database.ts\<close>. The SQLite store is a record of
  two row lists (in rowid order), the \<^verbatim>\<open>PRAGMA foreign_keys\<close> switch and the two
  AUTOINCREMENT counters. Every exported operation takes the store and returns its result,
  an error or a value, together with the store it leaves behind: the source runs every
  statement in autocommit mode, so what a statement wrote stays written when a later
  statement of the same operation raises.

  Amounts are SQLite \<^verbatim>\<open>REAL\<close>s and JavaScript numbers; they are modelled as
  mathematical reals, so the rounding of floating-point sums is outside this development.
  Text is a byte string, the UTF-8 of the text.
\<close>

subsection \<open>Types of the module\<close>

datatype CategoryType = Income | Expense

text \<open>The text stored in the \<^verbatim>\<open>type\<close> column.\<close>

fun typeText :: "CategoryType \<Rightarrow> string" where
  "typeText Income = ''income''"
| "typeText Expense = ''expense''"

record Category =
  cId :: int
  cName :: string
  cType :: CategoryType
  cColor :: string
  cCreatedAt :: string

text \<open>A row of the \<^verbatim>\<open>transactions\<close> table, columns as the schema names them.\<close>

record TransactionRow =
  r_id :: int
  r_description :: string
  r_amount :: real
  r_occurred_on :: string
  r_category_id :: "int option"
  r_created_at :: string

record TransactionRecord =
  tId :: int
  tDescription :: string
  tAmount :: real
  tOccurredOn :: string
  tCategoryId :: "int option"
  tCategoryName :: "string option"
  tCategoryType :: "CategoryType option"
  tCreatedAt :: string

text \<open>\<^verbatim>\<open>color?: string\<close>: \<open>None\<close> is an absent colour.\<close>

record CategoryInput =
  ciName :: string
  ciType :: CategoryType
  ciColor :: "string option"

text \<open>
  \<^verbatim>\<open>occurredOn\<close> is declared a string; \<open>None\<close> stands for a caller that leaves it
  out (\<^verbatim>\<open>undefined\<close>), which \<^verbatim>\<open>input.occurredOn || ...\<close> treats like the empty
  string.
\<close>

record TransactionInput =
  iDescription :: string
  iAmount :: real
  iOccurredOn :: "string option"
  iCategoryId :: "int option"
  iType :: CategoryType

record MonthlyTotals =
  mtIncome :: real
  mtExpenses :: real
  mtBalance :: real

record CategoryMonthlyTotal =
  ctCategoryId :: int
  ctCategoryName :: string
  ctCategoryType :: CategoryType
  ctTotal :: real

text \<open>A JavaScript \<^verbatim>\<open>Error\<close>, with its message.\<close>

datatype error = Error string

subsection \<open>Strings\<close>

fun startsWith :: "string \<Rightarrow> string \<Rightarrow> bool" where
  "startsWith s [] = True"
| "startsWith [] (p # ps) = False"
| "startsWith (c # cs) (p # ps) = (c = p \<and> startsWith cs ps)"

text \<open>\<^verbatim>\<open>s.includes(p)\<close>.\<close>

fun includesText :: "string \<Rightarrow> string \<Rightarrow> bool" where
  "includesText [] p = (p = [])"
| "includesText (c # cs) p = (startsWith (c # cs) p \<or> includesText cs p)"

text \<open>
  \<^verbatim>\<open>s.trim()\<close> strips the white space and the line terminators of ECMAScript from both
  ends: U+0009 to U+000D, U+0020, U+00A0, U+1680, U+2000 to U+200A, U+2028, U+2029, U+202F,
  U+205F, U+3000 and U+FEFF. Text is UTF-8 here, so each of them is the byte sequence that
  encodes it.
\<close>

definition whiteSpace :: "string list" where
  "whiteSpace =
     [[CHR 0x09], [CHR 0x0A], [CHR 0x0B], [CHR 0x0C], [CHR 0x0D], [CHR 0x20],
      [CHR 0xC2, CHR 0xA0],
      [CHR 0xE1, CHR 0x9A, CHR 0x80],
      [CHR 0xE2, CHR 0x80, CHR 0x80], [CHR 0xE2, CHR 0x80, CHR 0x81],
      [CHR 0xE2, CHR 0x80, CHR 0x82], [CHR 0xE2, CHR 0x80, CHR 0x83],
      [CHR 0xE2, CHR 0x80, CHR 0x84], [CHR 0xE2, CHR 0x80, CHR 0x85],
      [CHR 0xE2, CHR 0x80, CHR 0x86], [CHR 0xE2, CHR 0x80, CHR 0x87],
      [CHR 0xE2, CHR 0x80, CHR 0x88], [CHR 0xE2, CHR 0x80, CHR 0x89],
      [CHR 0xE2, CHR 0x80, CHR 0x8A],
      [CHR 0xE2, CHR 0x80, CHR 0xA8], [CHR 0xE2, CHR 0x80, CHR 0xA9],
      [CHR 0xE2, CHR 0x80, CHR 0xAF],
      [CHR 0xE2, CHR 0x81, CHR 0x9F],
      [CHR 0xE3, CHR 0x80, CHR 0x80],
      [CHR 0xEF, CHR 0xBB, CHR 0xBF]]"

text \<open>
  \<open>stripStart ws s\<close> takes from the front of \<open>s\<close> every sequence of \<open>ws\<close> it begins with;
  a sequence found begins with the first byte, so the rest of it is dropped from the tail.
\<close>

fun stripStart :: "string list \<Rightarrow> string \<Rightarrow> string" where
  "stripStart ws [] = []"
| "stripStart ws (c # cs) =
     (case find (startsWith (c # cs)) ws of
        None \<Rightarrow> c # cs
      | Some w \<Rightarrow> stripStart ws (drop (length w - 1) cs))"

definition trim :: "string \<Rightarrow> string" where
  "trim s = rev (stripStart (map rev whiteSpace) (rev (stripStart whiteSpace s)))"

text \<open>
  The order of SQLite's \<^verbatim>\<open>BINARY\<close> collation on \<^verbatim>\<open>TEXT\<close>: byte by byte, a proper
  prefix first. \<open>textLe a b\<close> is \<^verbatim>\<open>a <= b\<close>.
\<close>

fun textLe :: "string \<Rightarrow> string \<Rightarrow> bool" where
  "textLe [] b = True"
| "textLe (x # xs) [] = False"
| "textLe (x # xs) (y # ys) =
     (if (of_char x :: nat) < of_char y then True
      else if (of_char y :: nat) < of_char x then False
      else textLe xs ys)"

text \<open>\<^verbatim>\<open>x BETWEEN lo AND hi\<close> on text.\<close>

definition between :: "string \<Rightarrow> string \<Rightarrow> string \<Rightarrow> bool" where
  "between x lo hi = (textLe lo x \<and> textLe x hi)"

subsection \<open>Dates\<close>

text \<open>
  A \<^verbatim>\<open>Date\<close> is its time value, the milliseconds since 1970-01-01T00:00:00Z; the
  functions below are the abstract operations of ECMAScript's Date objects over time
  values in the valid range. The local time zone is a parameter \<open>tza\<close>, its offset from
  UTC in milliseconds (3600000 for UTC+1), taken as constant.
\<close>

type_synonym Date = int

definition msPerDay :: int where
  "msPerDay = 86400000"

definition Day :: "Date \<Rightarrow> int" where
  "Day t = t div msPerDay"

definition TimeWithinDay :: "Date \<Rightarrow> int" where
  "TimeWithinDay t = t mod msPerDay"

definition DaysInYear :: "int \<Rightarrow> int" where
  "DaysInYear y =
     (if y mod 4 \<noteq> 0 then 365
      else if y mod 100 \<noteq> 0 then 366
      else if y mod 400 \<noteq> 0 then 365
      else 366)"

definition DayFromYear :: "int \<Rightarrow> int" where
  "DayFromYear y =
     365 * (y - 1970) + (y - 1969) div 4 - (y - 1901) div 100 + (y - 1601) div 400"

text \<open>
  The year of day number \<open>d\<close>: ECMAScript's largest \<open>y\<close> with \<open>DayFromYear y \<le> d\<close>,
  found next to the estimate that a year has 146097 / 400 days.
\<close>

definition YearFromDay :: "int \<Rightarrow> int" where
  "YearFromDay d =
     (let y = 1970 + (400 * d) div 146097
      in if DayFromYear (y + 1) \<le> d then y + 1
         else if DayFromYear y \<le> d then y
         else y - 1)"

definition YearFromTime :: "Date \<Rightarrow> int" where
  "YearFromTime t = YearFromDay (Day t)"

definition InLeapYear :: "int \<Rightarrow> bool" where
  "InLeapYear y = (DaysInYear y = 366)"

text \<open>Days of the year before month \<open>m\<close> (0 is January; 12 is the whole year).\<close>

definition daysBeforeMonth :: "bool \<Rightarrow> int \<Rightarrow> int" where
  "daysBeforeMonth leap m =
     [0, 31, 59, 90, 120, 151, 181, 212, 243, 273, 304, 334, 365] ! nat m
       + (if leap \<and> 2 \<le> m then 1 else 0)"

definition DayWithinYear :: "Date \<Rightarrow> int" where
  "DayWithinYear t = Day t - DayFromYear (YearFromTime t)"

fun monthOfDay :: "bool \<Rightarrow> int \<Rightarrow> nat \<Rightarrow> int" where
  "monthOfDay leap dwy 0 = 0"
| "monthOfDay leap dwy (Suc m) =
     (if daysBeforeMonth leap (int (Suc m)) \<le> dwy then int (Suc m)
      else monthOfDay leap dwy m)"

definition MonthFromTime :: "Date \<Rightarrow> int" where
  "MonthFromTime t = monthOfDay (InLeapYear (YearFromTime t)) (DayWithinYear t) 11"

definition DateFromTime :: "Date \<Rightarrow> int" where
  "DateFromTime t =
     DayWithinYear t - daysBeforeMonth (InLeapYear (YearFromTime t)) (MonthFromTime t) + 1"

definition MakeDay :: "int \<Rightarrow> int \<Rightarrow> int \<Rightarrow> int" where
  "MakeDay year month date =
     (let ym = year + month div 12; mn = month mod 12
      in DayFromYear ym + daysBeforeMonth (InLeapYear ym) mn + date - 1)"

definition MakeDate :: "int \<Rightarrow> int \<Rightarrow> Date" where
  "MakeDate day time = day * msPerDay + time"

definition LocalTime :: "int \<Rightarrow> Date \<Rightarrow> int" where
  "LocalTime tza t = t + tza"

definition UTC :: "int \<Rightarrow> int \<Rightarrow> Date" where
  "UTC tza t = t - tza"

text \<open>
  \<^verbatim>\<open>new Date(year, month, date)\<close>: midnight of that day in local time; a year from 0 to
  99 means 1900 + year.
\<close>

definition newDate :: "int \<Rightarrow> int \<Rightarrow> int \<Rightarrow> int \<Rightarrow> Date" where
  "newDate tza year month date =
     (let yr = (if 0 \<le> year \<and> year \<le> 99 then 1900 + year else year)
      in UTC tza (MakeDate (MakeDay yr month date) 0))"

definition getFullYear :: "int \<Rightarrow> Date \<Rightarrow> int" where
  "getFullYear tza t = YearFromTime (LocalTime tza t)"

definition getMonth :: "int \<Rightarrow> Date \<Rightarrow> int" where
  "getMonth tza t = MonthFromTime (LocalTime tza t)"

definition digit :: "int \<Rightarrow> char" where
  "digit n = ''0123456789'' ! nat (n mod 10)"

fun digits :: "nat \<Rightarrow> int \<Rightarrow> string" where
  "digits 0 n = []"
| "digits (Suc k) n = digits k (n div 10) @ [digit n]"

text \<open>
  \<^verbatim>\<open>date.toISOString()\<close>: the fields of the time value in UTC, the year with four digits
  from 0 to 9999 and with a sign and six digits outside.
\<close>

definition toISOString :: "Date \<Rightarrow> string" where
  "toISOString t =
     (let y = YearFromTime t; ms = TimeWithinDay t
      in (if 0 \<le> y \<and> y \<le> 9999 then digits 4 y
          else (if y < 0 then ''-'' else ''+'') @ digits 6 (abs y))
         @ ''-'' @ digits 2 (MonthFromTime t + 1)
         @ ''-'' @ digits 2 (DateFromTime t)
         @ ''T'' @ digits 2 (ms div 3600000)
         @ '':'' @ digits 2 (ms div 60000 mod 60)
         @ '':'' @ digits 2 (ms div 1000 mod 60)
         @ ''.'' @ digits 3 (ms mod 1000) @ ''Z'')"

definition toDateOnlyString :: "Date \<Rightarrow> string" where
  "toDateOnlyString date = take 10 (toISOString date)"

text \<open>\<^verbatim>\<open>monthBounds(target)\<close>, the pair \<open>(start, end)\<close>.\<close>

definition monthBounds :: "int \<Rightarrow> Date \<Rightarrow> string \<times> string" where
  "monthBounds tza target =
     (let start = newDate tza (getFullYear tza target) (getMonth tza target) 1;
          end = newDate tza (getFullYear tza target) (getMonth tza target + 1) 0
      in (toDateOnlyString start, toDateOnlyString end))"

text \<open>
  The text \<^verbatim>\<open>YYYY-MM-DD\<close> of day \<open>d\<close> of month \<open>m\<close> (0 is January) of year \<open>y\<close>, for
  stating what \<^verbatim>\<open>monthBounds\<close> returns.
\<close>

definition isoDate :: "int \<Rightarrow> int \<Rightarrow> int \<Rightarrow> string" where
  "isoDate y m d = digits 4 y @ ''-'' @ digits 2 (m + 1) @ ''-'' @ digits 2 d"

subsection \<open>The store\<close>

text \<open>
  The two tables of \<^verbatim>\<open>createTablesStatement\<close>, \<^verbatim>\<open>PRAGMA foreign_keys\<close> (which the
  statement switches on) and, for the two \<^verbatim>\<open>AUTOINCREMENT\<close> keys, the largest rowid each
  table has ever held.
\<close>

record SQLiteDatabase =
  categories :: "Category list"
  transactions :: "TransactionRow list"
  foreign_keys :: bool
  seqCategories :: int
  seqTransactions :: int

text \<open>
  A call of the driver (\<^verbatim>\<open>runAsync\<close>, \<^verbatim>\<open>getFirstAsync\<close>, \<^verbatim>\<open>getAllAsync\<close>) can be
  rejected by the storage layer for reasons of its own (disk, locking). Each operation takes
  a table \<open>io\<close> of such faults: \<open>io k = Some msg\<close> rejects the operation's \<open>k\<close>-th driver call with
  the message \<open>msg\<close>, before it has any effect. \<open>no_faults\<close> rejects none.
\<close>

type_synonym faults = "nat \<Rightarrow> string option"

definition no_faults :: faults where
  "no_faults = (\<lambda>k. None)"

definition stmt ::
  "string option \<Rightarrow> SQLiteDatabase \<Rightarrow> (error + 'a) \<times> SQLiteDatabase \<Rightarrow> (error + 'a) \<times> SQLiteDatabase"
where
  "stmt fault db run = (case fault of Some msg \<Rightarrow> (Inl (Error msg), db) | None \<Rightarrow> run)"

text \<open>The rowid an \<^verbatim>\<open>AUTOINCREMENT\<close> key gives the next row.\<close>

definition nextRowId :: "int \<Rightarrow> int list \<Rightarrow> int" where
  "nextRowId seq ids = max seq (foldr max ids 0) + 1"

text \<open>A reference to a category that is not there, while foreign keys are enforced.\<close>

definition foreignKeyFails :: "SQLiteDatabase \<Rightarrow> int option \<Rightarrow> bool" where
  "foreignKeyFails db categoryId =
     (case categoryId of
        None \<Rightarrow> False
      | Some cid \<Rightarrow> foreign_keys db \<and> \<not> (\<exists>c \<in> set (categories db). cId c = cid))"

text \<open>\<^verbatim>\<open>INSERT INTO categories (name, type, color, created_at) VALUES (...)\<close>\<close>

definition insertCategory ::
  "SQLiteDatabase \<Rightarrow> string \<Rightarrow> CategoryType \<Rightarrow> string \<Rightarrow> string \<Rightarrow> error + int \<times> SQLiteDatabase"
where
  "insertCategory db name type color createdAt =
     (if \<exists>c \<in> set (categories db). cName c = name
      then Inl (Error ''UNIQUE constraint failed: categories.name'')
      else
        let rowid = nextRowId (seqCategories db) (map cId (categories db))
        in Inr (rowid,
             db\<lparr>categories := categories db @
                   [\<lparr>cId = rowid, cName = name, cType = type, cColor = color,
                     cCreatedAt = createdAt\<rparr>],
                seqCategories := rowid\<rparr>))"

text \<open>\<^verbatim>\<open>SELECT id, name, type, color, created_at FROM categories WHERE id = $id\<close>\<close>

definition selectCategory :: "SQLiteDatabase \<Rightarrow> int \<Rightarrow> Category option" where
  "selectCategory db rid = find (\<lambda>c. cId c = rid) (categories db)"

text \<open>
  \<^verbatim>\<open>UPDATE categories SET name = $name, type = $type, color = $color WHERE id = $id\<close>,
  with the number of rows changed.
\<close>

definition updateCategoryRow ::
  "SQLiteDatabase \<Rightarrow> int \<Rightarrow> string \<Rightarrow> CategoryType \<Rightarrow> string \<Rightarrow> error + nat \<times> SQLiteDatabase"
where
  "updateCategoryRow db rid name type color =
     (if (\<exists>c \<in> set (categories db). cId c = rid)
          \<and> (\<exists>c \<in> set (categories db). cId c \<noteq> rid \<and> cName c = name)
      then Inl (Error ''UNIQUE constraint failed: categories.name'')
      else Inr (length (filter (\<lambda>c. cId c = rid) (categories db)),
             db\<lparr>categories :=
                  map (\<lambda>c. if cId c = rid then c\<lparr>cName := name, cType := type, cColor := color\<rparr>
                            else c)
                    (categories db)\<rparr>))"

text \<open>
  \<^verbatim>\<open>UPDATE transactions SET amount = CASE WHEN $type = 'expense' THEN -ABS(amount)
  ELSE ABS(amount) END WHERE category_id = $id\<close>
\<close>

definition updateAmountSigns :: "SQLiteDatabase \<Rightarrow> int \<Rightarrow> CategoryType \<Rightarrow> SQLiteDatabase" where
  "updateAmountSigns db rid type =
     db\<lparr>transactions :=
          map (\<lambda>t. if r_category_id t = Some rid
                    then t\<lparr>r_amount := (if type = Expense then - \<bar>r_amount t\<bar> else \<bar>r_amount t\<bar>)\<rparr>
                    else t)
            (transactions db)\<rparr>"

text \<open>\<^verbatim>\<open>SELECT type FROM categories WHERE id = $id\<close>\<close>

definition selectCategoryType :: "SQLiteDatabase \<Rightarrow> int \<Rightarrow> CategoryType option" where
  "selectCategoryType db rid = map_option cType (find (\<lambda>c. cId c = rid) (categories db))"

text \<open>
  \<^verbatim>\<open>INSERT INTO transactions (description, amount, occurred_on, category_id, created_at)
  VALUES (...)\<close>
\<close>

definition insertTransaction ::
  "SQLiteDatabase \<Rightarrow> string \<Rightarrow> real \<Rightarrow> string \<Rightarrow> int option \<Rightarrow> string
     \<Rightarrow> error + int \<times> SQLiteDatabase"
where
  "insertTransaction db description amount occurredOn categoryId createdAt =
     (if foreignKeyFails db categoryId then Inl (Error ''FOREIGN KEY constraint failed'')
      else
        let rowid = nextRowId (seqTransactions db) (map r_id (transactions db))
        in Inr (rowid,
             db\<lparr>transactions := transactions db @
                   [\<lparr>r_id = rowid, r_description = description, r_amount = amount,
                     r_occurred_on = occurredOn, r_category_id = categoryId,
                     r_created_at = createdAt\<rparr>],
                seqTransactions := rowid\<rparr>))"

text \<open>
  \<^verbatim>\<open>UPDATE transactions SET description = $description, amount = $amount,
  occurred_on = $occurredOn, category_id = $categoryId WHERE id = $id\<close>, with the number of
  rows changed.
\<close>

definition updateTransactionRow ::
  "SQLiteDatabase \<Rightarrow> int \<Rightarrow> string \<Rightarrow> real \<Rightarrow> string \<Rightarrow> int option
     \<Rightarrow> error + nat \<times> SQLiteDatabase"
where
  "updateTransactionRow db rid description amount occurredOn categoryId =
     (if (\<exists>t \<in> set (transactions db). r_id t = rid) \<and> foreignKeyFails db categoryId
      then Inl (Error ''FOREIGN KEY constraint failed'')
      else Inr (length (filter (\<lambda>t. r_id t = rid) (transactions db)),
             db\<lparr>transactions :=
                  map (\<lambda>t. if r_id t = rid
                            then t\<lparr>r_description := description, r_amount := amount,
                                   r_occurred_on := occurredOn, r_category_id := categoryId\<rparr>
                            else t)
                    (transactions db)\<rparr>))"

text \<open>
  \<^verbatim>\<open>SELECT t.*, c.name AS category_name, c.type AS category_type FROM transactions t
  LEFT JOIN categories c ON c.id = t.category_id WHERE t.id = $id\<close>: the row and the
  category it is joined with, if any.
\<close>

definition selectTransaction ::
  "SQLiteDatabase \<Rightarrow> int \<Rightarrow> (TransactionRow \<times> Category option) option"
where
  "selectTransaction db rid =
     (case find (\<lambda>t. r_id t = rid) (transactions db) of
        None \<Rightarrow> None
      | Some t \<Rightarrow>
          Some (t, case r_category_id t of
                     None \<Rightarrow> None
                   | Some cid \<Rightarrow> find (\<lambda>c. cId c = cid) (categories db)))"

text \<open>\<^verbatim>\<open>DELETE FROM transactions WHERE id = $id\<close>\<close>

definition deleteTransactionRow :: "SQLiteDatabase \<Rightarrow> int \<Rightarrow> SQLiteDatabase" where
  "deleteTransactionRow db rid =
     db\<lparr>transactions := filter (\<lambda>t. r_id t \<noteq> rid) (transactions db)\<rparr>"

subsection \<open>Categories\<close>

text \<open>
  The \<^verbatim>\<open>catch\<close> of \<^verbatim>\<open>createCategory\<close> and \<^verbatim>\<open>updateCategory\<close>: an error whose
  message includes \<^verbatim>\<open>UNIQUE\<close> is replaced, any other is thrown again.
\<close>

definition DuplicateNameError :: error where
  "DuplicateNameError = Error ''A category with that name already exists.''"

definition catchUnique :: "(error + 'a) \<times> SQLiteDatabase \<Rightarrow> (error + 'a) \<times> SQLiteDatabase" where
  "catchUnique r =
     (case r of
        (Inl (Error message), db) \<Rightarrow>
          if includesText message ''UNIQUE'' then (Inl DuplicateNameError, db)
          else (Inl (Error message), db)
      | (Inr v, db) \<Rightarrow> (Inr v, db))"

text \<open>
  \<^verbatim>\<open>(input.color ?? '').trim() || (input.type === 'expense' ? '#c62828' : '#2e7d32')\<close>
\<close>

definition colorOf :: "CategoryInput \<Rightarrow> string" where
  "colorOf input =
     (let c = trim (case ciColor input of None \<Rightarrow> [] | Some s \<Rightarrow> s)
      in if c \<noteq> [] then c
         else if ciType input = Expense then ''#c62828'' else ''#2e7d32'')"

text \<open>\<open>now\<close> is the \<^verbatim>\<open>new Date()\<close> of the call.\<close>

definition createCategory ::
  "faults \<Rightarrow> Date \<Rightarrow> SQLiteDatabase \<Rightarrow> CategoryInput \<Rightarrow> (error + Category) \<times> SQLiteDatabase"
where
  "createCategory io now db input =
     (let name = trim (ciName input)
      in if name = [] then (Inl (Error ''Category name is required''), db)
         else
           let color = colorOf input; createdAt = toISOString now
           in catchUnique
                (stmt (io 0) db
                   (case insertCategory db name (ciType input) color createdAt of
                      Inl e \<Rightarrow> (Inl e, db)
                    | Inr (lastInsertRowId, db1) \<Rightarrow>
                        stmt (io 1) db1
                          (case selectCategory db1 lastInsertRowId of
                             None \<Rightarrow> (Inl (Error ''Unable to load new category''), db1)
                           | Some inserted \<Rightarrow> (Inr inserted, db1)))))"

definition updateCategory ::
  "faults \<Rightarrow> SQLiteDatabase \<Rightarrow> int \<Rightarrow> CategoryInput \<Rightarrow> (error + Category) \<times> SQLiteDatabase"
where
  "updateCategory io db rid input =
     (let name = trim (ciName input)
      in if name = [] then (Inl (Error ''Category name is required''), db)
         else
           let color = colorOf input
           in catchUnique
                (stmt (io 0) db
                   (case updateCategoryRow db rid name (ciType input) color of
                      Inl e \<Rightarrow> (Inl e, db)
                    | Inr (changes, db1) \<Rightarrow>
                        if changes = 0 then (Inl (Error ''Category not found.''), db1)
                        else
                          stmt (io 1) db1
                            (let db2 = updateAmountSigns db1 rid (ciType input)
                             in stmt (io 2) db2
                                  (case selectCategory db2 rid of
                                     None \<Rightarrow> (Inl (Error ''Unable to load updated category''), db2)
                                   | Some updated \<Rightarrow> (Inr updated, db2))))))"

subsection \<open>Transactions\<close>

definition mapTransactionRow ::
  "TransactionRow \<Rightarrow> string option \<Rightarrow> CategoryType option \<Rightarrow> TransactionRecord"
where
  "mapTransactionRow row category_name category_type =
     \<lparr>tId = r_id row, tDescription = r_description row, tAmount = r_amount row,
      tOccurredOn = r_occurred_on row, tCategoryId = r_category_id row,
      tCategoryName = category_name, tCategoryType = category_type,
      tCreatedAt = r_created_at row\<rparr>"

text \<open>
  The opening of \<^verbatim>\<open>createTransaction\<close> and of \<^verbatim>\<open>updateTransaction\<close>, the same text
  in both: \<^verbatim>\<open>categoryType\<close> and \<^verbatim>\<open>normalizedAmount\<close>, from the category the input
  names when it names one and from \<^verbatim>\<open>input.type\<close> when it names none. A category that is
  named and not found leaves both as they were initialised.
\<close>

definition normalizeAmount :: "SQLiteDatabase \<Rightarrow> TransactionInput \<Rightarrow> CategoryType option \<times> real" where
  "normalizeAmount db input =
     (case iCategoryId input of
        Some categoryId \<Rightarrow>
          (case selectCategoryType db categoryId of
             Some ty \<Rightarrow> (Some ty, if ty = Expense then - \<bar>iAmount input\<bar> else \<bar>iAmount input\<bar>)
           | None \<Rightarrow> (None, \<bar>iAmount input\<bar>))
      | None \<Rightarrow>
          (Some (iType input),
           if iType input = Expense then - \<bar>iAmount input\<bar> else \<bar>iAmount input\<bar>))"

text \<open>\<^verbatim>\<open>input.occurredOn || toDateOnlyString(new Date())\<close>\<close>

definition occurredOnOf :: "Date \<Rightarrow> TransactionInput \<Rightarrow> string" where
  "occurredOnOf now input =
     (case iOccurredOn input of
        None \<Rightarrow> toDateOnlyString now
      | Some s \<Rightarrow> if s = [] then toDateOnlyString now else s)"

text \<open>
  The driver calls of the two operations are numbered 0 (the category's type, made only
  when the input names a category), 1 (the write) and 2 (reading the row back).
\<close>

definition lookupFault :: "faults \<Rightarrow> TransactionInput \<Rightarrow> string option" where
  "lookupFault io input = (case iCategoryId input of None \<Rightarrow> None | Some categoryId \<Rightarrow> io 0)"

definition createTransaction ::
  "faults \<Rightarrow> Date \<Rightarrow> SQLiteDatabase \<Rightarrow> TransactionInput
     \<Rightarrow> (error + TransactionRecord) \<times> SQLiteDatabase"
where
  "createTransaction io now db input =
     stmt (lookupFault io input) db
       (let (categoryType, normalizedAmount) = normalizeAmount db input;
            createdAt = toISOString now;
            occurredOn = occurredOnOf now input
        in stmt (io 1) db
             (case insertTransaction db (iDescription input) normalizedAmount occurredOn
                     (iCategoryId input) createdAt of
                Inl e \<Rightarrow> (Inl e, db)
              | Inr (lastInsertRowId, db1) \<Rightarrow>
                  stmt (io 2) db1
                    (case selectTransaction db1 lastInsertRowId of
                       None \<Rightarrow> (Inl (Error ''Unable to load inserted transaction''), db1)
                     | Some (inserted, c) \<Rightarrow>
                         (Inr (mapTransactionRow inserted (map_option cName c)
                                 (case categoryType of
                                    Some ty \<Rightarrow> Some ty
                                  | None \<Rightarrow> map_option cType c)),
                          db1))))"

definition updateTransaction ::
  "faults \<Rightarrow> Date \<Rightarrow> SQLiteDatabase \<Rightarrow> int \<Rightarrow> TransactionInput
     \<Rightarrow> (error + TransactionRecord) \<times> SQLiteDatabase"
where
  "updateTransaction io now db rid input =
     stmt (lookupFault io input) db
       (let (categoryType, normalizedAmount) = normalizeAmount db input;
            occurredOn = occurredOnOf now input
        in stmt (io 1) db
             (case updateTransactionRow db rid (iDescription input) normalizedAmount occurredOn
                     (iCategoryId input) of
                Inl e \<Rightarrow> (Inl e, db)
              | Inr (changes, db1) \<Rightarrow>
                  if changes = 0 then (Inl (Error ''Transaction not found.''), db1)
                  else
                    stmt (io 2) db1
                      (case selectTransaction db1 rid of
                         None \<Rightarrow> (Inl (Error ''Unable to load updated transaction''), db1)
                       | Some (updated, c) \<Rightarrow>
                           (Inr (mapTransactionRow updated (map_option cName c)
                                   (case categoryType of
                                      Some ty \<Rightarrow> Some ty
                                    | None \<Rightarrow> map_option cType c)),
                            db1))))"

definition deleteTransaction ::
  "faults \<Rightarrow> SQLiteDatabase \<Rightarrow> int \<Rightarrow> (error + unit) \<times> SQLiteDatabase"
where
  "deleteTransaction io db rid = stmt (io 0) db (Inr (), deleteTransactionRow db rid)"

subsection \<open>Monthly totals\<close>

text \<open>The rows \<^verbatim>\<open>WHERE occurred_on BETWEEN $start AND $end\<close> keeps.\<close>

definition rowsBetween :: "SQLiteDatabase \<Rightarrow> string \<Rightarrow> string \<Rightarrow> TransactionRow list" where
  "rowsBetween db start end =
     filter (\<lambda>t. between (r_occurred_on t) start end) (transactions db)"

text \<open>SQL's \<^verbatim>\<open>SUM\<close>: \<^verbatim>\<open>NULL\<close> over no rows.\<close>

definition sqlSum :: "real list \<Rightarrow> real option" where
  "sqlSum xs = (if xs = [] then None else Some (sum_list xs))"

text \<open>
  \<^verbatim>\<open>SELECT SUM(CASE WHEN amount >= 0 THEN amount ELSE 0 END) AS income,
  SUM(CASE WHEN amount < 0 THEN amount ELSE 0 END) AS expenses FROM transactions
  WHERE occurred_on BETWEEN $start AND $end\<close>
\<close>

definition selectTotals :: "SQLiteDatabase \<Rightarrow> string \<Rightarrow> string \<Rightarrow> real option \<times> real option" where
  "selectTotals db start end =
     (let rows = rowsBetween db start end
      in (sqlSum (map (\<lambda>t. if r_amount t \<ge> 0 then r_amount t else 0) rows),
          sqlSum (map (\<lambda>t. if r_amount t < 0 then r_amount t else 0) rows)))"

definition fetchMonthlyTotals ::
  "faults \<Rightarrow> int \<Rightarrow> SQLiteDatabase \<Rightarrow> Date \<Rightarrow> (error + MonthlyTotals) \<times> SQLiteDatabase"
where
  "fetchMonthlyTotals io tza db target =
     (let (start, end) = monthBounds tza target
      in stmt (io 0) db
           (let row = selectTotals db start end;
                income = (case fst row of None \<Rightarrow> 0 | Some v \<Rightarrow> v);
                expenses = \<bar>case snd row of None \<Rightarrow> 0 | Some v \<Rightarrow> v\<bar>
            in (Inr \<lparr>mtIncome = income, mtExpenses = expenses, mtBalance = income - expenses\<rparr>,
                db)))"

text \<open>
  The rows of \<^verbatim>\<open>transactions t JOIN categories c ON c.id = t.category_id
  WHERE t.occurred_on BETWEEN $start AND $end\<close>.
\<close>

definition joinedRows ::
  "SQLiteDatabase \<Rightarrow> string \<Rightarrow> string \<Rightarrow> (TransactionRow \<times> Category) list"
where
  "joinedRows db start end =
     concat (map (\<lambda>t. case r_category_id t of
                         None \<Rightarrow> []
                       | Some cid \<Rightarrow> map (\<lambda>c. (t, c)) (filter (\<lambda>c. cId c = cid) (categories db)))
               (rowsBetween db start end))"

text \<open>
  \<^verbatim>\<open>ORDER BY c.type DESC, total DESC\<close>: \<open>orderedBefore a b\<close> lets row \<open>a\<close> come before
  row \<open>b\<close>. A result row is \<open>((id, name, type), total)\<close>.
\<close>

type_synonym totalRow = "(int \<times> string \<times> CategoryType) \<times> real"

definition orderedBefore :: "totalRow \<Rightarrow> totalRow \<Rightarrow> bool" where
  "orderedBefore a b =
     (let ta = typeText (snd (snd (fst a))); tb = typeText (snd (snd (fst b)))
      in if ta = tb then snd b \<le> snd a else textLe tb ta)"

fun insertOrdered :: "totalRow \<Rightarrow> totalRow list \<Rightarrow> totalRow list" where
  "insertOrdered a [] = [a]"
| "insertOrdered a (b # bs) =
     (if orderedBefore a b then a # b # bs else b # insertOrdered a bs)"

definition orderRows :: "totalRow list \<Rightarrow> totalRow list" where
  "orderRows rows = foldr insertOrdered rows []"

text \<open>
  \<^verbatim>\<open>SELECT c.id, c.name, c.type, SUM(t.amount) AS total ... GROUP BY c.id, c.name, c.type
  ORDER BY c.type DESC, total DESC\<close>
\<close>

definition selectTotalsByCategory :: "SQLiteDatabase \<Rightarrow> string \<Rightarrow> string \<Rightarrow> totalRow list" where
  "selectTotalsByCategory db start end =
     (let joined = joinedRows db start end;
          key = (\<lambda>(t, c). (cId c, cName c, cType c));
          groups = remdups (map key joined)
      in orderRows
           (map (\<lambda>g. (g, sum_list (map (\<lambda>(t, c). r_amount t) (filter (\<lambda>j. key j = g) joined))))
              groups))"

definition fetchMonthlyTotalsByCategory ::
  "faults \<Rightarrow> int \<Rightarrow> SQLiteDatabase \<Rightarrow> Date
     \<Rightarrow> (error + CategoryMonthlyTotal list) \<times> SQLiteDatabase"
where
  "fetchMonthlyTotalsByCategory io tza db target =
     (let (start, end) = monthBounds tza target
      in stmt (io 0) db
           (let rows = selectTotalsByCategory db start end
            in (Inr (map (\<lambda>((category_id, category_name, category_type), total).
                            \<lparr>ctCategoryId = category_id, ctCategoryName = category_name,
                             ctCategoryType = category_type,
                             ctTotal = (if category_type = Expense then - total else total)\<rparr>)
                       rows),
                db)))"

subsection \<open>An example store\<close>

text \<open>
  Two categories and four transactions, three of them in February 2024 and one on the first
  of March; the third transaction has no category.
\<close>

definition exampleDb :: SQLiteDatabase where
  "exampleDb =
     \<lparr>categories =
        [\<lparr>cId = 1, cName = ''Salary'', cType = Income, cColor = ''#2e7d32'',
          cCreatedAt = ''2024-01-01T08:00:00.000Z''\<rparr>,
         \<lparr>cId = 2, cName = ''Groceries'', cType = Expense, cColor = ''#c62828'',
          cCreatedAt = ''2024-01-01T08:00:00.000Z''\<rparr>],
      transactions =
        [\<lparr>r_id = 1, r_description = ''pay'', r_amount = 1000, r_occurred_on = ''2024-02-01'',
          r_category_id = Some 1, r_created_at = ''2024-02-01T09:00:00.000Z''\<rparr>,
         \<lparr>r_id = 2, r_description = ''market'', r_amount = - 200, r_occurred_on = ''2024-02-10'',
          r_category_id = Some 2, r_created_at = ''2024-02-10T09:00:00.000Z''\<rparr>,
         \<lparr>r_id = 3, r_description = ''bus'', r_amount = - 50, r_occurred_on = ''2024-02-29'',
          r_category_id = None, r_created_at = ''2024-02-29T09:00:00.000Z''\<rparr>,
         \<lparr>r_id = 4, r_description = ''bakery'', r_amount = - 8, r_occurred_on = ''2024-03-01'',
          r_category_id = Some 2, r_created_at = ''2024-03-01T09:00:00.000Z''\<rparr>],
      foreign_keys = True, seqCategories = 2, seqTransactions = 4\<rparr>"

text \<open>A fault table that rejects the second driver call of an operation.\<close>

definition cascadeFails :: faults where
  "cascadeFails = no_faults(1 := Some ''disk I/O error'')"

text \<open>An update that turns the income category Salary into an expense category.\<close>

definition retypeSalary :: CategoryInput where
  "retypeSalary = \<lparr>ciName = ''Salary'', ciType = Expense, ciColor = None\<rparr>"

text \<open>An input that names category 9, which the example store does not have.\<close>

definition staleInput :: TransactionInput where
  "staleInput =
     \<lparr>iDescription = ''coffee'', iAmount = 5, iOccurredOn = Some ''2024-02-12'',
      iCategoryId = Some 9, iType = Expense\<rparr>"

text \<open>
  A new category under the name Salary, written with a no-break space (U+00A0) and a space
  before it and a line separator (U+2028) after it.
\<close>

definition paddedSalary :: CategoryInput where
  "paddedSalary =
     \<lparr>ciName = [CHR 0xC2, CHR 0xA0] @ '' Salary'' @ [CHR 0xE2, CHR 0x80, CHR 0xA8],
      ciType = Expense, ciColor = None\<rparr>"

text \<open>
  A store with a salary on the 31st of January 2024 and two purchases in February, the
  second on the 29th.
\<close>

definition monthEndDb :: SQLiteDatabase where
  "monthEndDb =
     \<lparr>categories =
        [\<lparr>cId = 1, cName = ''Salary'', cType = Income, cColor = ''#2e7d32'',
          cCreatedAt = ''2024-01-01T08:00:00.000Z''\<rparr>,
         \<lparr>cId = 2, cName = ''Groceries'', cType = Expense, cColor = ''#c62828'',
          cCreatedAt = ''2024-01-01T08:00:00.000Z''\<rparr>],
      transactions =
        [\<lparr>r_id = 1, r_description = ''pay'', r_amount = 500, r_occurred_on = ''2024-01-31'',
          r_category_id = Some 1, r_created_at = ''2024-01-31T09:00:00.000Z''\<rparr>,
         \<lparr>r_id = 2, r_description = ''market'', r_amount = - 200, r_occurred_on = ''2024-02-10'',
          r_category_id = Some 2, r_created_at = ''2024-02-10T09:00:00.000Z''\<rparr>,
         \<lparr>r_id = 3, r_description = ''bakery'', r_amount = - 50, r_occurred_on = ''2024-02-29'',
          r_category_id = Some 2, r_created_at = ''2024-02-29T09:00:00.000Z''\<rparr>],
      foreign_keys = True, seqCategories = 2, seqTransactions = 3\<rparr>"


subsection \<open>Stores after a write\<close>

text \<open>
  The store as \<^verbatim>\<open>updateCategory\<close>'s first statement leaves it, and the store as
  \<^verbatim>\<open>updateTransaction\<close>'s write leaves it: names for the statements of the properties
  below.
\<close>

definition updatedCategories :: "SQLiteDatabase \<Rightarrow> int \<Rightarrow> CategoryInput \<Rightarrow> SQLiteDatabase" where
  "updatedCategories db cid input =
     db\<lparr>categories :=
          map (\<lambda>c. if cId c = cid
                    then c\<lparr>cName := trim (ciName input), cType := ciType input,
                           cColor := colorOf input\<rparr>
                    else c)
            (categories db)\<rparr>"

definition updatedTransactions ::
  "Date \<Rightarrow> SQLiteDatabase \<Rightarrow> int \<Rightarrow> TransactionInput \<Rightarrow> SQLiteDatabase"
where
  "updatedTransactions now db rid input =
     db\<lparr>transactions :=
          map (\<lambda>t. if r_id t = rid
                    then t\<lparr>r_description := iDescription input,
                           r_amount := snd (normalizeAmount db input),
                           r_occurred_on := occurredOnOf now input,
                           r_category_id := iCategoryId input\<rparr>
                    else t)
            (transactions db)\<rparr>"

section \<open>Properties\<close>

subsection \<open>Auxiliary facts\<close>

lemma find_snoc:
  "find P (xs @ [y]) =
     (case find P xs of None \<Rightarrow> (if P y then Some y else None) | Some x \<Rightarrow> Some x)"
  by (induction xs) auto

lemma find_SomeD: "find P xs = Some x \<Longrightarrow> x \<in> set xs \<and> P x"
  by (induction xs) (auto split: if_splits)

lemma foldr_max_ge: "x \<in> set xs \<Longrightarrow> x \<le> foldr max xs (0::int)"
  by (induction xs) auto

lemma nextRowId_fresh: "x \<in> set ids \<Longrightarrow> x < nextRowId seq ids"
  using foldr_max_ge [of x ids] by (simp add: nextRowId_def)

text \<open>No row of a table has the rowid the table gives out next.\<close>

lemma find_fresh_row: "find (\<lambda>t. r_id t = nextRowId seq (map r_id ts)) ts = None"
proof -
  have "\<And>t. t \<in> set ts \<Longrightarrow> r_id t \<noteq> nextRowId seq (map r_id ts)"
    using nextRowId_fresh [of _ "map r_id ts" seq] by fastforce
  then show ?thesis by (simp add: find_None_iff)
qed

lemma includes_unique: "includesText ''UNIQUE constraint failed: categories.name'' ''UNIQUE''"
  by simp

lemma trim_Nil: "trim [] = []"
  by (simp add: trim_def)

lemma trim_example: "trim ''  Salary '' = ''Salary''"
  by code_simp

lemma trim_paddedSalary: "trim (ciName paddedSalary) = ''Salary''"
  by code_simp

lemma find_map_where:
  assumes "\<And>x. P (f x) = P x"
  shows "find P (map (\<lambda>x. if P x then f x else x) xs) = map_option f (find P xs)"
  using assms by (induction xs) auto

lemma map_where_none: "\<not> (\<exists>x \<in> set xs. P x) \<Longrightarrow> map (\<lambda>x. if P x then f x else x) xs = xs"
  by (induction xs) auto


lemma filter_nonempty: "\<exists>x \<in> set xs. P x \<Longrightarrow> length (filter P xs) \<noteq> 0"
  by (induction xs) auto

lemma find_exists: "\<exists>x \<in> set xs. P x \<Longrightarrow> \<exists>y. find P xs = Some y \<and> P y"
  by (induction xs) auto

lemma stmt_None: "stmt None db r = r"
  by (simp add: stmt_def)

lemma stmt_Some: "stmt (Some msg) db r = (Inl (Error msg), db)"
  by (simp add: stmt_def)

lemma catchUnique_Inr: "catchUnique (Inr v, db) = (Inr v, db)"
  by (simp add: catchUnique_def)

lemma catchUnique_Inl:
  "catchUnique (Inl (Error msg), db)
     = (Inl (if includesText msg ''UNIQUE'' then DuplicateNameError else Error msg), db)"
  by (simp add: catchUnique_def)

lemma trim_Salary: "trim ''Salary'' = ''Salary''"
  by code_simp


text \<open>
  What \<^verbatim>\<open>createTransaction\<close> returns and stores when the storage layer accepts the row.
\<close>

lemma createTransaction_stores:
  assumes "\<not> foreignKeyFails db (iCategoryId input)"
  shows "createTransaction no_faults now db input =
     (let row = \<lparr>r_id = nextRowId (seqTransactions db) (map r_id (transactions db)),
                 r_description = iDescription input, r_amount = snd (normalizeAmount db input),
                 r_occurred_on = occurredOnOf now input, r_category_id = iCategoryId input,
                 r_created_at = toISOString now\<rparr>;
          c = (case iCategoryId input of
                 None \<Rightarrow> None
               | Some cid \<Rightarrow> find (\<lambda>c. cId c = cid) (categories db))
      in (Inr (mapTransactionRow row (map_option cName c)
                (case fst (normalizeAmount db input) of
                   Some ty \<Rightarrow> Some ty
                 | None \<Rightarrow> map_option cType c)),
          db\<lparr>transactions := transactions db @ [row], seqTransactions := r_id row\<rparr>))"
  using assms find_fresh_row [of "seqTransactions db" "transactions db"]
  by (simp add: createTransaction_def lookupFault_def stmt_def no_faults_def
      insertTransaction_def selectTransaction_def Let_def find_snoc split_def
      split: option.splits)

text \<open>
  What \<^verbatim>\<open>updateTransaction\<close> returns and stores when a row has the id and the storage
  layer accepts the write, and what it raises when the storage layer rejects the category.
\<close>

lemma updateTransaction_stores:
  assumes found: "\<exists>t \<in> set (transactions db). r_id t = rid"
    and fk: "\<not> foreignKeyFails db (iCategoryId input)"
  shows "\<exists>r. updateTransaction no_faults now db rid input
              = (Inr r, updatedTransactions now db rid input)
           \<and> tId r = rid \<and> tAmount r = snd (normalizeAmount db input)
           \<and> tOccurredOn r = occurredOnOf now input"
proof -
  let ?f = "\<lambda>t. t\<lparr>r_description := iDescription input, r_amount := snd (normalizeAmount db input),
                   r_occurred_on := occurredOnOf now input, r_category_id := iCategoryId input\<rparr>"
  obtain t0 where t0: "find (\<lambda>t. r_id t = rid) (transactions db) = Some t0" "r_id t0 = rid"
    using find_exists [OF found] by blast
  have sel: "find (\<lambda>t. r_id t = rid) (transactions (updatedTransactions now db rid input))
      = Some (?f t0)"
    using find_map_where [of "\<lambda>t. r_id t = rid" ?f "transactions db"] t0
    by (simp add: updatedTransactions_def)
  have row: "updateTransactionRow db rid (iDescription input) (snd (normalizeAmount db input))
        (occurredOnOf now input) (iCategoryId input)
      = Inr (length (filter (\<lambda>t. r_id t = rid) (transactions db)),
             updatedTransactions now db rid input)"
    using fk by (simp add: updateTransactionRow_def updatedTransactions_def)
  obtain r where r: "selectTransaction (updatedTransactions now db rid input) rid = Some (?f t0, r)"
    by (simp add: selectTransaction_def sel)
  have "updateTransaction no_faults now db rid input
      = (Inr (mapTransactionRow (?f t0) (map_option cName r)
               (case fst (normalizeAmount db input) of
                  Some ty \<Rightarrow> Some ty
                | None \<Rightarrow> map_option cType r)),
         updatedTransactions now db rid input)"
    using filter_nonempty [OF found]
    by (simp add: updateTransaction_def lookupFault_def no_faults_def stmt_None split_def Let_def
        row r split: option.splits)
  then show ?thesis using t0(2) by (simp add: mapTransactionRow_def)
qed

lemma updateTransaction_rejected:
  assumes "foreignKeyFails db (iCategoryId input)"
  shows "updateTransaction no_faults now db rid input =
     (Inl (if \<exists>t \<in> set (transactions db). r_id t = rid
           then Error ''FOREIGN KEY constraint failed''
           else Error ''Transaction not found.''), db)"
proof (cases "\<exists>t \<in> set (transactions db). r_id t = rid")
  case True
  then show ?thesis
    using assms
    by (simp add: updateTransaction_def lookupFault_def no_faults_def stmt_None split_def Let_def
        updateTransactionRow_def split: option.splits)
next
  case False
  then have "filter (\<lambda>t. r_id t = rid) (transactions db) = []"
    by (auto simp: filter_empty_conv)
  moreover have "\<And>f. map (\<lambda>t. if r_id t = rid then f t else t) (transactions db) = transactions db"
    using False map_where_none [of "transactions db" "\<lambda>t. r_id t = rid"] by blast
  ultimately show ?thesis
    using False
    by (simp add: updateTransaction_def lookupFault_def no_faults_def stmt_None split_def Let_def
        updateTransactionRow_def split: option.splits)
qed

text \<open>
  \<^verbatim>\<open>updateCategory\<close> statement by statement, once its first statement is accepted: the
  category row is written, then the signs, then the row is read back.
\<close>

lemma selectCategory_updated:
  assumes "\<exists>c \<in> set (categories db). cId c = cid"
  shows "\<exists>c. selectCategory (updateAmountSigns (updatedCategories db cid input) cid ty) cid = Some c
           \<and> cId c = cid \<and> cType c = ciType input"
proof -
  let ?f = "\<lambda>c. c\<lparr>cName := trim (ciName input), cType := ciType input, cColor := colorOf input\<rparr>"
  obtain c0 where c0: "find (\<lambda>c. cId c = cid) (categories db) = Some c0" "cId c0 = cid"
    using find_exists [OF assms] by blast
  have "find (\<lambda>c. cId c = cid) (map (\<lambda>c. if cId c = cid then ?f c else c) (categories db))
      = Some (?f c0)"
    using find_map_where [of "\<lambda>c. cId c = cid" ?f "categories db"] c0 by simp
  then have "selectCategory (updateAmountSigns (updatedCategories db cid input) cid ty) cid
      = Some (?f c0)"
    by (simp add: selectCategory_def updateAmountSigns_def updatedCategories_def)
  then show ?thesis using c0(2) by simp
qed

lemma updateCategory_steps:
  assumes name: "trim (ciName input) \<noteq> []"
    and found: "\<exists>c \<in> set (categories db). cId c = cid"
    and free: "\<not> (\<exists>c \<in> set (categories db). cId c \<noteq> cid \<and> cName c = trim (ciName input))"
    and io0: "io 0 = None"
  shows "\<exists>c. cId c = cid \<and> cType c = ciType input \<and>
     updateCategory io db cid input =
       catchUnique
         (stmt (io 1) (updatedCategories db cid input)
            (stmt (io 2) (updateAmountSigns (updatedCategories db cid input) cid (ciType input))
               (Inr c, updateAmountSigns (updatedCategories db cid input) cid (ciType input))))"
proof -
  obtain c where c: "selectCategory
        (updateAmountSigns (updatedCategories db cid input) cid (ciType input)) cid = Some c"
      "cId c = cid" "cType c = ciType input"
    using selectCategory_updated [OF found] by blast
  have row: "updateCategoryRow db cid (trim (ciName input)) (ciType input) (colorOf input)
      = Inr (length (filter (\<lambda>c. cId c = cid) (categories db)), updatedCategories db cid input)"
    using free by (simp add: updateCategoryRow_def updatedCategories_def)
  have "updateCategory io db cid input =
       catchUnique
         (stmt (io 1) (updatedCategories db cid input)
            (stmt (io 2) (updateAmountSigns (updatedCategories db cid input) cid (ciType input))
               (Inr c, updateAmountSigns (updatedCategories db cid input) cid (ciType input))))"
    using name io0 filter_nonempty [OF found]
    by (simp add: updateCategory_def Let_def row stmt_None c(1))
  then show ?thesis using c(2,3) by blast
qed

subsection \<open>Creating a transaction against a category\<close>

text \<open>
  Claim C1. When the input of \<^verbatim>\<open>createTransaction\<close> names a category that exists, the
  operation succeeds and appends one row; the amount of that row, which is also the amount
  returned, has the magnitude of the amount supplied and the sign of the category's type,
  whatever sign the caller supplied and whatever \<^verbatim>\<open>type\<close> the input carries: for an
  expense category it is at most zero, and zero only when the supplied amount is zero; for
  an income category it is at least zero.
\<close>

theorem createTransaction_sign_matches_category:
  assumes "iCategoryId input = Some cid" and "selectCategory db cid = Some c"
  shows "\<exists>r row. createTransaction no_faults now db input
             = (Inr r, db\<lparr>transactions := transactions db @ [row], seqTransactions := r_id row\<rparr>)
          \<and> tAmount r = r_amount row \<and> r_category_id row = Some cid
          \<and> \<bar>r_amount row\<bar> = \<bar>iAmount input\<bar>
          \<and> (if cType c = Expense
              then r_amount row \<le> 0 \<and> (r_amount row = 0) = (iAmount input = 0)
              else r_amount row \<ge> 0)"
proof -
  have found: "\<exists>x \<in> set (categories db). cId x = cid"
    using find_SomeD [of "\<lambda>x. cId x = cid" "categories db" c] assms(2)
    by (auto simp: selectCategory_def)
  have ty: "normalizeAmount db input
      = (Some (cType c), if cType c = Expense then - \<bar>iAmount input\<bar> else \<bar>iAmount input\<bar>)"
    using assms by (simp add: normalizeAmount_def selectCategoryType_def selectCategory_def)
  have fk: "\<not> foreignKeyFails db (iCategoryId input)"
    using found assms(1) by (simp add: foreignKeyFails_def)
  show ?thesis
    unfolding createTransaction_stores [OF fk] Let_def
    by (intro exI conjI, rule refl) (simp_all add: ty assms(1) mapTransactionRow_def)
qed

text \<open>
  An amount of 12 entered with \<^verbatim>\<open>type\<close> income against the expense category Groceries
  is stored negative.
\<close>

theorem createTransaction_sign_matches_category_witness:
  "\<exists>r row. createTransaction no_faults 0 exampleDb
        \<lparr>iDescription = ''refund booked as expense'', iAmount = 12,
         iOccurredOn = Some ''2024-02-12'', iCategoryId = Some 2, iType = Income\<rparr>
      = (Inr r, exampleDb\<lparr>transactions := transactions exampleDb @ [row],
                          seqTransactions := r_id row\<rparr>)
     \<and> tAmount r = r_amount row \<and> r_amount row < 0"
  using createTransaction_sign_matches_category [of
      "\<lparr>iDescription = ''refund booked as expense'', iAmount = 12,
        iOccurredOn = Some ''2024-02-12'', iCategoryId = Some 2, iType = Income\<rparr>" 2 exampleDb
      "\<lparr>cId = 2, cName = ''Groceries'', cType = Expense, cColor = ''#c62828'',
        cCreatedAt = ''2024-01-01T08:00:00.000Z''\<rparr>" 0]
  by (simp add: exampleDb_def selectCategory_def) force

subsection \<open>A category name that is taken\<close>

text \<open>The names the two category operations write are not empty.\<close>

lemma createCategory_names:
  assumes "createCategory io now db input = (r, db')"
    and "\<forall>c \<in> set (categories db). cName c \<noteq> []"
  shows "\<forall>c \<in> set (categories db'). cName c \<noteq> []"
proof (cases "trim (ciName input) = []")
  case True
  then show ?thesis using assms by (simp add: createCategory_def)
next
  case False
  then show ?thesis
    using assms
    by (auto simp: createCategory_def Let_def stmt_def catchUnique_def insertCategory_def
        split: option.splits sum.splits if_splits error.splits prod.splits)
qed

lemma updateCategory_names:
  assumes "updateCategory io db cid input = (r, db')"
    and "\<forall>c \<in> set (categories db). cName c \<noteq> []"
  shows "\<forall>c \<in> set (categories db'). cName c \<noteq> []"
proof (cases "trim (ciName input) = []")
  case True
  then show ?thesis using assms by (simp add: updateCategory_def)
next
  case False
  then show ?thesis
    using assms
    by (auto simp: updateCategory_def Let_def stmt_def catchUnique_def updateCategoryRow_def
        updateAmountSigns_def
        split: option.splits sum.splits if_splits error.splits prod.splits)
qed

text \<open>
  Claim C8. When the store holds a category whose name is the trimmed name of the input
  (a name that is not empty, as every name the module writes), whatever white space
  surrounds it in the input, the \<^verbatim>\<open>INSERT\<close> of
  \<^verbatim>\<open>createCategory\<close> is rejected for the \<^verbatim>\<open>UNIQUE\<close> constraint on the name, and
  \<^verbatim>\<open>createCategory\<close> fails with the message of a duplicate name, which it puts in the
  place of the storage layer's; the store, the first category with it, is as it was.
\<close>

theorem createCategory_duplicate_name:
  assumes "c \<in> set (categories db)" and "trim (ciName input) = cName c" and "cName c \<noteq> []"
  shows "insertCategory db (trim (ciName input)) (ciType input) (colorOf input) (toISOString now)
           = Inl (Error ''UNIQUE constraint failed: categories.name'')
         \<and> createCategory no_faults now db input
           = (Inl (Error ''A category with that name already exists.''), db)"
proof -
  have "\<exists>x \<in> set (categories db). cName x = trim (ciName input)"
    using assms(1,2) by auto
  then have ins: "insertCategory db (trim (ciName input)) (ciType input) (colorOf input)
      (toISOString now) = Inl (Error ''UNIQUE constraint failed: categories.name'')"
    by (simp add: insertCategory_def)
  then have "createCategory no_faults now db input
           = (Inl (Error ''A category with that name already exists.''), db)"
    using assms(2,3) includes_unique
    by (simp add: createCategory_def Let_def stmt_def no_faults_def catchUnique_def
        DuplicateNameError_def)
  then show ?thesis using ins by simp
qed

text \<open>
  The name Salary entered with a no-break space and a space before it and a line separator
  after it: the input differs from the stored name, its trimmed name does not.
\<close>

theorem createCategory_duplicate_name_witness:
  "hd (categories exampleDb) \<in> set (categories exampleDb)
   \<and> trim (ciName paddedSalary) = cName (hd (categories exampleDb))
   \<and> cName (hd (categories exampleDb)) \<noteq> []
   \<and> ciName paddedSalary \<noteq> ''Salary''
   \<and> createCategory no_faults 0 exampleDb paddedSalary
     = (Inl (Error ''A category with that name already exists.''), exampleDb)"
proof -
  have h1: "hd (categories exampleDb) \<in> set (categories exampleDb)"
    by (simp add: exampleDb_def)
  have h2: "trim (ciName paddedSalary) = cName (hd (categories exampleDb))"
    by (simp add: exampleDb_def trim_paddedSalary)
  have h3: "cName (hd (categories exampleDb)) \<noteq> []"
    by (simp add: exampleDb_def)
  have h4: "ciName paddedSalary \<noteq> ''Salary''"
    by (simp add: paddedSalary_def)
  from createCategory_duplicate_name [OF h1 h2 h3, of 0]
  have r: "createCategory no_faults 0 exampleDb paddedSalary
     = (Inl (Error ''A category with that name already exists.''), exampleDb)"
    by (rule conjunct2)
  show ?thesis
    by (intro conjI h1 h2 h3 h4 r)
qed

subsection \<open>Deleting a transaction\<close>

text \<open>
  Claim C9. \<^verbatim>\<open>deleteTransaction\<close> succeeds for every id, whether a transaction has it or
  not. Afterwards no transaction has the id, the other transactions and the categories are
  as they were, and deleting the same id again succeeds and changes nothing.
\<close>

theorem deleteTransaction_idempotent:
  "\<exists>db'. deleteTransaction no_faults db rid = (Inr (), db')
     \<and> \<not> (\<exists>t \<in> set (transactions db'). r_id t = rid)
     \<and> transactions db' = filter (\<lambda>t. r_id t \<noteq> rid) (transactions db)
     \<and> categories db' = categories db
     \<and> deleteTransaction no_faults db' rid = (Inr (), db')"
  by (simp add: deleteTransaction_def stmt_def no_faults_def deleteTransactionRow_def)

theorem deleteTransaction_idempotent_witness:
  "\<exists>db'. deleteTransaction no_faults exampleDb 2 = (Inr (), db')
     \<and> map r_id (transactions db') = [1, 3, 4]
     \<and> deleteTransaction no_faults db' 2 = (Inr (), db')"
  using deleteTransaction_idempotent [of exampleDb 2] by (auto simp: exampleDb_def)

subsection \<open>Changing a category\<close>

text \<open>
  Claim C2. An update of an existing category under a name that is not empty and that no
  other category has succeeds and returns the category with the new type; afterwards every
  transaction whose \<^verbatim>\<open>category_id\<close> is the category's id has the magnitude of its old
  amount with the sign of the new type, negative for expense and positive for income, and
  every other transaction, and every other field, is as it was. This holds for every such
  update, those that change the type among them.
\<close>

theorem updateCategory_cascade:
  assumes "trim (ciName input) \<noteq> []"
    and "\<exists>c \<in> set (categories db). cId c = cid"
    and "\<not> (\<exists>c \<in> set (categories db). cId c \<noteq> cid \<and> cName c = trim (ciName input))"
  shows "\<exists>c db'. updateCategory no_faults db cid input = (Inr c, db')
      \<and> cId c = cid \<and> cType c = ciType input
      \<and> transactions db' =
          map (\<lambda>t. if r_category_id t = Some cid
                    then t\<lparr>r_amount :=
                           (if ciType input = Expense then - \<bar>r_amount t\<bar> else \<bar>r_amount t\<bar>)\<rparr>
                    else t)
            (transactions db)"
proof -
  let ?db' = "updateAmountSigns (updatedCategories db cid input) cid (ciType input)"
  obtain c where c: "cId c = cid" "cType c = ciType input"
    and run: "updateCategory no_faults db cid input = (Inr c, ?db')"
    using updateCategory_steps [where io = no_faults, OF assms(1) assms(2) assms(3)]
    by (auto simp: no_faults_def stmt_None catchUnique_Inr)
  have "transactions ?db' =
          map (\<lambda>t. if r_category_id t = Some cid
                    then t\<lparr>r_amount :=
                           (if ciType input = Expense then - \<bar>r_amount t\<bar> else \<bar>r_amount t\<bar>)\<rparr>
                    else t)
            (transactions db)"
    by (simp add: updateAmountSigns_def updatedCategories_def)
  then show ?thesis using c run by blast
qed

theorem updateCategory_cascade_witness:
  "trim (ciName retypeSalary) \<noteq> []
   \<and> (\<exists>c \<in> set (categories exampleDb). cId c = 1)
   \<and> \<not> (\<exists>c \<in> set (categories exampleDb). cId c \<noteq> 1 \<and> cName c = trim (ciName retypeSalary))
   \<and> (\<exists>c db'. updateCategory no_faults exampleDb 1 retypeSalary = (Inr c, db')
        \<and> cType c = Expense
        \<and> map r_amount (transactions exampleDb) = [1000, - 200, - 50, - 8]
        \<and> map r_amount (transactions db') = [- 1000, - 200, - 50, - 8])"
proof -
  have h1: "trim (ciName retypeSalary) \<noteq> []"
    by (simp add: retypeSalary_def trim_Salary)
  have h2: "\<exists>c \<in> set (categories exampleDb). cId c = 1"
    by (simp add: exampleDb_def)
  have h3: "\<not> (\<exists>c \<in> set (categories exampleDb).
             cId c \<noteq> 1 \<and> cName c = trim (ciName retypeSalary))"
    by (simp add: exampleDb_def retypeSalary_def trim_Salary)
  obtain c db' where run: "updateCategory no_faults exampleDb 1 retypeSalary = (Inr c, db')"
      "cType c = ciType retypeSalary"
      "transactions db' =
          map (\<lambda>t. if r_category_id t = Some 1
                    then t\<lparr>r_amount :=
                      (if ciType retypeSalary = Expense then - \<bar>r_amount t\<bar> else \<bar>r_amount t\<bar>)\<rparr>
                    else t)
            (transactions exampleDb)"
    using updateCategory_cascade [OF h1 h2 h3] by blast
  have a: "map r_amount (transactions db') = [- 1000, - 200, - 50, - 8]"
    unfolding run(3) by (simp add: exampleDb_def retypeSalary_def)
  have b: "map r_amount (transactions exampleDb) = [1000, - 200, - 50, - 8]"
    by (simp add: exampleDb_def)
  have c: "cType c = Expense"
    using run(2) by (simp add: retypeSalary_def)
  have ex: "\<exists>c db'. updateCategory no_faults exampleDb 1 retypeSalary = (Inr c, db')
        \<and> cType c = Expense
        \<and> map r_amount (transactions exampleDb) = [1000, - 200, - 50, - 8]
        \<and> map r_amount (transactions db') = [- 1000, - 200, - 50, - 8]"
    by (rule exI [of _ c], rule exI [of _ db']) (intro conjI run(1) a b c)
  show ?thesis
    by (intro conjI h1 h2 h3 ex)
qed

text \<open>
  Claim C6, as the code has it. \<^verbatim>\<open>updateCategory\<close> opens no transaction: the update of
  the category row and the rewriting of the signs are two statements, each committed on its
  own. When the first is accepted and the storage layer rejects the second, the operation
  raises that error (as a duplicate name, should its message include \<^verbatim>\<open>UNIQUE\<close>), the
  category row keeps its new name, type and colour, and the transactions keep the amounts
  they had.
\<close>

theorem updateCategory_cascade_failure_keeps_update:
  assumes "trim (ciName input) \<noteq> []"
    and "\<exists>c \<in> set (categories db). cId c = cid"
    and "\<not> (\<exists>c \<in> set (categories db). cId c \<noteq> cid \<and> cName c = trim (ciName input))"
    and "io 0 = None" and "io 1 = Some msg"
  shows "updateCategory io db cid input =
     (Inl (if includesText msg ''UNIQUE'' then DuplicateNameError else Error msg),
      db\<lparr>categories :=
           map (\<lambda>c. if cId c = cid
                     then c\<lparr>cName := trim (ciName input), cType := ciType input,
                            cColor := colorOf input\<rparr>
                     else c)
             (categories db)\<rparr>)"
  using updateCategory_steps [where io = io, OF assms(1) assms(2) assms(3) assms(4)] assms(5)
  by (auto simp: stmt_Some catchUnique_Inl updatedCategories_def)

theorem updateCategory_cascade_failure_keeps_update_witness:
  "trim (ciName retypeSalary) \<noteq> []
   \<and> (\<exists>c \<in> set (categories exampleDb). cId c = 1)
   \<and> \<not> (\<exists>c \<in> set (categories exampleDb). cId c \<noteq> 1 \<and> cName c = trim (ciName retypeSalary))
   \<and> cascadeFails 0 = None \<and> cascadeFails 1 = Some ''disk I/O error''
   \<and> updateCategory cascadeFails exampleDb 1 retypeSalary =
       (Inl (Error ''disk I/O error''),
        exampleDb\<lparr>categories :=
          [\<lparr>cId = 1, cName = ''Salary'', cType = Expense, cColor = ''#c62828'',
            cCreatedAt = ''2024-01-01T08:00:00.000Z''\<rparr>,
           \<lparr>cId = 2, cName = ''Groceries'', cType = Expense, cColor = ''#c62828'',
            cCreatedAt = ''2024-01-01T08:00:00.000Z''\<rparr>]\<rparr>)"
proof -
  have h1: "trim (ciName retypeSalary) \<noteq> []"
    by (simp add: retypeSalary_def trim_Salary)
  have h2: "\<exists>c \<in> set (categories exampleDb). cId c = 1"
    by (simp add: exampleDb_def)
  have h3: "\<not> (\<exists>c \<in> set (categories exampleDb).
             cId c \<noteq> 1 \<and> cName c = trim (ciName retypeSalary))"
    by (simp add: exampleDb_def retypeSalary_def trim_Salary)
  have h4: "cascadeFails 0 = None"
    by (simp add: cascadeFails_def no_faults_def)
  have h5: "cascadeFails 1 = Some ''disk I/O error''"
    by (simp add: cascadeFails_def)
  have color: "colorOf retypeSalary = ''#c62828''"
    by (simp add: colorOf_def retypeSalary_def trim_Nil)
  have r: "updateCategory cascadeFails exampleDb 1 retypeSalary =
       (Inl (Error ''disk I/O error''),
        exampleDb\<lparr>categories :=
          [\<lparr>cId = 1, cName = ''Salary'', cType = Expense, cColor = ''#c62828'',
            cCreatedAt = ''2024-01-01T08:00:00.000Z''\<rparr>,
           \<lparr>cId = 2, cName = ''Groceries'', cType = Expense, cColor = ''#c62828'',
            cCreatedAt = ''2024-01-01T08:00:00.000Z''\<rparr>]\<rparr>)"
    unfolding updateCategory_cascade_failure_keeps_update
      [where io = cascadeFails, OF h1 h2 h3 h4 h5]
    using color trim_Salary by (simp add: exampleDb_def retypeSalary_def)
  show ?thesis
    by (intro conjI h1 h2 h3 h4 h5 r)
qed

text \<open>
  Claim C6, as the specification states it, fails: in the example store, retyping Salary to
  expense while the storage layer rejects the statement that rewrites the signs leaves
  Salary an expense category whose transaction still has the amount +1000.
\<close>

theorem updateCategory_not_atomic:
  "cascadeFails 0 = None \<and> cascadeFails 1 = Some ''disk I/O error''
   \<and> map (\<lambda>c. (cId c, cType c)) (categories exampleDb) = [(1, Income), (2, Expense)]
   \<and> map (\<lambda>t. (r_category_id t, r_amount t)) (transactions exampleDb)
       = [(Some 1, 1000), (Some 2, - 200), (None, - 50), (Some 2, - 8)]
   \<and> fst (updateCategory cascadeFails exampleDb 1 retypeSalary) = Inl (Error ''disk I/O error'')
   \<and> map (\<lambda>c. (cId c, cType c))
         (categories (snd (updateCategory cascadeFails exampleDb 1 retypeSalary)))
       = [(1, Expense), (2, Expense)]
   \<and> map (\<lambda>t. (r_category_id t, r_amount t))
         (transactions (snd (updateCategory cascadeFails exampleDb 1 retypeSalary)))
       = [(Some 1, 1000), (Some 2, - 200), (None, - 50), (Some 2, - 8)]"
  by (simp add: updateCategory_def cascadeFails_def no_faults_def exampleDb_def retypeSalary_def
      trim_Salary trim_Nil updateCategoryRow_def stmt_def catchUnique_def Let_def colorOf_def)

subsection \<open>A transaction that names a category that is not there\<close>

text \<open>
  Claim C4, as the code has it. When the input names a category that does not exist, the
  caller's \<^verbatim>\<open>type\<close> is not consulted: the amount prepared is the magnitude of the
  supplied amount and no category type is resolved. With foreign keys enforced, as
  \<^verbatim>\<open>createTablesStatement\<close> sets them, the storage layer then rejects the write:
  \<^verbatim>\<open>createTransaction\<close> raises its error, \<^verbatim>\<open>updateTransaction\<close> raises it when a row
  has the id and \<^verbatim>\<open>Transaction not found.\<close> otherwise, and the store is unchanged.
  Without that enforcement, the magnitude is what is stored, for \<^verbatim>\<open>createTransaction\<close>
  always and for \<^verbatim>\<open>updateTransaction\<close> exactly when a row has the id.
\<close>

theorem stale_category_not_resolved:
  assumes "iCategoryId input = Some cid" and "selectCategory db cid = None"
  shows "normalizeAmount db input = (None, \<bar>iAmount input\<bar>)
     \<and> (if foreign_keys db
         then createTransaction no_faults now db input
                = (Inl (Error ''FOREIGN KEY constraint failed''), db)
              \<and> updateTransaction no_faults now db rid input
                = (Inl (if \<exists>t \<in> set (transactions db). r_id t = rid
                        then Error ''FOREIGN KEY constraint failed''
                        else Error ''Transaction not found.''), db)
         else (\<exists>r row. createTransaction no_faults now db input
                  = (Inr r, db\<lparr>transactions := transactions db @ [row],
                               seqTransactions := r_id row\<rparr>)
                \<and> r_amount row = \<bar>iAmount input\<bar> \<and> tAmount r = \<bar>iAmount input\<bar>)
              \<and> ((\<exists>t \<in> set (transactions db). r_id t = rid)
                 = (\<exists>r db'. updateTransaction no_faults now db rid input = (Inr r, db')
                      \<and> tAmount r = \<bar>iAmount input\<bar>)))"
proof -
  have none: "\<not> (\<exists>c \<in> set (categories db). cId c = cid)"
    using assms(2) by (auto simp: selectCategory_def find_None_iff)
  have n: "normalizeAmount db input = (None, \<bar>iAmount input\<bar>)"
    using assms by (simp add: normalizeAmount_def selectCategoryType_def selectCategory_def)
  show ?thesis
  proof (cases "foreign_keys db")
    case True
    then have fk: "foreignKeyFails db (iCategoryId input)"
      using none assms(1) by (simp add: foreignKeyFails_def)
    have "createTransaction no_faults now db input
        = (Inl (Error ''FOREIGN KEY constraint failed''), db)"
      using fk assms(1)
      by (simp add: createTransaction_def lookupFault_def no_faults_def stmt_None split_def
          Let_def insertTransaction_def)
    then show ?thesis
      using True n updateTransaction_rejected [OF fk] by simp
  next
    case False
    then have fk: "\<not> foreignKeyFails db (iCategoryId input)"
      using assms(1) by (simp add: foreignKeyFails_def)
    have c: "\<exists>r row. createTransaction no_faults now db input
                  = (Inr r, db\<lparr>transactions := transactions db @ [row],
                               seqTransactions := r_id row\<rparr>)
                \<and> r_amount row = \<bar>iAmount input\<bar> \<and> tAmount r = \<bar>iAmount input\<bar>"
      unfolding createTransaction_stores [OF fk] Let_def
      by (intro exI conjI, rule refl) (simp_all add: n mapTransactionRow_def)
    have u: "(\<exists>t \<in> set (transactions db). r_id t = rid)
                 = (\<exists>r db'. updateTransaction no_faults now db rid input = (Inr r, db')
                      \<and> tAmount r = \<bar>iAmount input\<bar>)"
    proof (cases "\<exists>t \<in> set (transactions db). r_id t = rid")
      case True
      moreover have "\<exists>r db'. updateTransaction no_faults now db rid input = (Inr r, db')
                      \<and> tAmount r = \<bar>iAmount input\<bar>"
        using updateTransaction_stores [OF True fk, of now] n by (simp, blast)
      ultimately show ?thesis by simp
    next
      case nf: False
      then have "filter (\<lambda>t. r_id t = rid) (transactions db) = []"
        by (auto simp: filter_empty_conv)
      then have "fst (updateTransaction no_faults now db rid input)
          = Inl (Error ''Transaction not found.'')"
        using fk
        by (simp add: updateTransaction_def lookupFault_def no_faults_def stmt_None split_def
            Let_def updateTransactionRow_def split: option.splits)
      then have "\<not> (\<exists>r db'. updateTransaction no_faults now db rid input = (Inr r, db')
                      \<and> tAmount r = \<bar>iAmount input\<bar>)"
        by (metis fst_conv sum.distinct(1))
      then show ?thesis using nf by simp
    qed
    show ?thesis using False n c u by simp
  qed
qed

theorem stale_category_not_resolved_witness:
  "iCategoryId staleInput = Some 9 \<and> selectCategory exampleDb 9 = None
   \<and> foreign_keys exampleDb
   \<and> normalizeAmount exampleDb staleInput = (None, \<bar>iAmount staleInput\<bar>)
   \<and> createTransaction no_faults 0 exampleDb staleInput
       = (Inl (Error ''FOREIGN KEY constraint failed''), exampleDb)"
proof -
  have h1: "iCategoryId staleInput = Some 9"
    by (simp add: staleInput_def)
  have h2: "selectCategory exampleDb 9 = None"
    by (simp add: selectCategory_def exampleDb_def)
  have h3: "foreign_keys exampleDb"
    by (simp add: exampleDb_def)
  show ?thesis
    using h1 h2 h3 stale_category_not_resolved [OF h1 h2, of 0 2] by simp
qed

text \<open>
  Claim C4, as the specification states it, fails: an expense of 5 against category 9 of the
  example store is rejected by \<^verbatim>\<open>createTransaction\<close> and by \<^verbatim>\<open>updateTransaction\<close>;
  the amount prepared for it is +5, not -5, and +5 is what a store that does not enforce
  foreign keys keeps.
\<close>

theorem stale_category_counterexample:
  "iCategoryId staleInput = Some 9 \<and> iType staleInput = Expense \<and> iAmount staleInput = 5
   \<and> selectCategory exampleDb 9 = None
   \<and> createTransaction no_faults 0 exampleDb staleInput
       = (Inl (Error ''FOREIGN KEY constraint failed''), exampleDb)
   \<and> updateTransaction no_faults 0 exampleDb 2 staleInput
       = (Inl (Error ''FOREIGN KEY constraint failed''), exampleDb)
   \<and> normalizeAmount exampleDb staleInput = (None, 5)
   \<and> map_sum (\<lambda>e. e) tAmount
         (fst (createTransaction no_faults 0 (exampleDb\<lparr>foreign_keys := False\<rparr>) staleInput))
       = Inr 5"
proof -
  have s: "selectCategory exampleDb 9 = None"
    by (simp add: selectCategory_def exampleDb_def)
  have n: "normalizeAmount exampleDb staleInput = (None, 5)"
    by (simp add: normalizeAmount_def selectCategoryType_def exampleDb_def staleInput_def)
  have n': "normalizeAmount (exampleDb\<lparr>foreign_keys := False\<rparr>) staleInput = (None, 5)"
    by (simp add: normalizeAmount_def selectCategoryType_def exampleDb_def staleInput_def)
  have fk: "foreignKeyFails exampleDb (iCategoryId staleInput)"
    by (simp add: foreignKeyFails_def exampleDb_def staleInput_def)
  have nfk: "\<not> foreignKeyFails (exampleDb\<lparr>foreign_keys := False\<rparr>) (iCategoryId staleInput)"
    by (simp add: foreignKeyFails_def staleInput_def)
  have c: "createTransaction no_faults 0 exampleDb staleInput
       = (Inl (Error ''FOREIGN KEY constraint failed''), exampleDb)"
    using fk
    by (simp add: createTransaction_def lookupFault_def no_faults_def stmt_None split_def
        Let_def insertTransaction_def staleInput_def)
  have u: "updateTransaction no_faults 0 exampleDb 2 staleInput
       = (Inl (Error ''FOREIGN KEY constraint failed''), exampleDb)"
    unfolding updateTransaction_rejected [OF fk] by (simp add: exampleDb_def)
  have e: "map_sum (\<lambda>e. e) tAmount
         (fst (createTransaction no_faults 0 (exampleDb\<lparr>foreign_keys := False\<rparr>) staleInput))
       = Inr 5"
    unfolding createTransaction_stores [OF nfk] Let_def
    by (simp add: n' mapTransactionRow_def)
  show ?thesis
    by (intro conjI s n c u e) (simp_all add: staleInput_def)
qed

subsection \<open>Updating a transaction without a date\<close>



subsection \<open>The calendar\<close>

text \<open>
  A year begins where the year before it ends, so \<open>DayFromYear\<close> grows with the year.
\<close>

lemma div_succ:
  fixes x k :: int
  assumes "0 < k"
  shows "(x + 1) div k = x div k + (if (x + 1) mod k = 0 then 1 else 0)"
proof -
  have x: "x = k * (x div k) + x mod k" by simp
  have r: "0 \<le> x mod k" "x mod k < k" using assms by simp_all
  show ?thesis
  proof (cases "x mod k = k - 1")
    case True
    then have "x + 1 = k * (x div k + 1)"
      using x by (metis add.commute add_diff_cancel_left' diff_add_cancel distrib_left mult.right_neutral add.assoc)
    then have "(x + 1) div k = x div k + 1" "(x + 1) mod k = 0"
      using assms by (metis nonzero_mult_div_cancel_left less_irrefl, metis mod_mult_self1_is_0)
    then show ?thesis by simp
  next
    case False
    then have lt: "x mod k + 1 < k" using r by simp
    have "x + 1 = k * (x div k) + (x mod k + 1)" using x by simp
    then have "(x + 1) div k = x div k \<and> (x + 1) mod k = x mod k + 1"
      using lt r assms
      by (metis add_nonneg_nonneg zero_le_one int_div_pos_eq int_mod_pos_eq)
    then show ?thesis using r by simp
  qed
qed

lemma mod4: "(y - 1968) mod 4 = y mod (4::int)"
proof -
  have "y - 1968 = y + 4 * (- 492)" by simp
  then show ?thesis by (metis mod_mult_self2)
qed

lemma mod100: "(y - 1900) mod 100 = y mod (100::int)"
proof -
  have "y - 1900 = y + 100 * (- 19)" by simp
  then show ?thesis by (metis mod_mult_self2)
qed

lemma mod400: "(y - 1600) mod 400 = y mod (400::int)"
proof -
  have "y - 1600 = y + 400 * (- 4)" by simp
  then show ?thesis by (metis mod_mult_self2)
qed

lemma mod100_mod4: "y mod 100 = 0 \<Longrightarrow> y mod (4::int) = 0"
proof -
  assume "y mod 100 = 0"
  then have "(100::int) dvd y" by (simp add: dvd_eq_mod_eq_0)
  moreover have "(4::int) dvd 100" by simp
  ultimately have "(4::int) dvd y" by (rule dvd_trans [rotated])
  then show ?thesis by (simp add: dvd_eq_mod_eq_0)
qed

lemma mod400_mod100: "y mod 400 = 0 \<Longrightarrow> y mod (100::int) = 0"
proof -
  assume "y mod 400 = 0"
  then have "(400::int) dvd y" by (simp add: dvd_eq_mod_eq_0)
  moreover have "(100::int) dvd 400" by simp
  ultimately have "(100::int) dvd y" by (rule dvd_trans [rotated])
  then show ?thesis by (simp add: dvd_eq_mod_eq_0)
qed

lemma DayFromYear_Suc: "DayFromYear (y + 1) = DayFromYear y + DaysInYear y"
proof -
  have a: "(y + 1 - 1969) div 4 = (y - 1969) div 4 + (if y mod 4 = 0 then 1 else 0)"
    using div_succ [of 4 "y - 1969"] mod4 [of y] by (simp add: algebra_simps)
  have b: "(y + 1 - 1901) div 100 = (y - 1901) div 100 + (if y mod 100 = 0 then 1 else 0)"
    using div_succ [of 100 "y - 1901"] mod100 [of y] by (simp add: algebra_simps)
  have c: "(y + 1 - 1601) div 400 = (y - 1601) div 400 + (if y mod 400 = 0 then 1 else 0)"
    using div_succ [of 400 "y - 1601"] mod400 [of y] by (simp add: algebra_simps)
  show ?thesis
    unfolding DayFromYear_def DaysInYear_def a b c
    using mod100_mod4 [of y] mod400_mod100 [of y] by auto
qed

lemma DaysInYear_pos: "365 \<le> DaysInYear y \<and> DaysInYear y \<le> 366"
  by (simp add: DaysInYear_def)

lemma DayFromYear_mono_step: "DayFromYear y < DayFromYear (y + 1)"
  using DayFromYear_Suc [of y] DaysInYear_pos [of y] by simp

lemma DayFromYear_less: "y < z \<Longrightarrow> DayFromYear y < DayFromYear z"
proof (induction "nat (z - y)" arbitrary: z)
  case 0
  then show ?case by simp
next
  case (Suc n)
  show ?case
  proof (cases "z - 1 = y")
    case True
    then show ?thesis using DayFromYear_mono_step [of y] by (simp add: algebra_simps)
  next
    case False
    then have "y < z - 1" using Suc.prems by simp
    moreover have "n = nat (z - 1 - y)" using Suc.hyps(2) by simp
    ultimately have "DayFromYear y < DayFromYear (z - 1)" using Suc.hyps(1) by blast
    then show ?thesis using DayFromYear_mono_step [of "z - 1"] by simp
  qed
qed

lemma DayFromYear_mono: "y \<le> z \<Longrightarrow> DayFromYear y \<le> DayFromYear z"
  using DayFromYear_less [of y z] by (cases "y = z") auto

text \<open>
  \<open>YearFromDay\<close> is ECMAScript's \<^verbatim>\<open>YearFromTime\<close>: the largest year that does not begin
  after the day. The estimate it starts from is off by one year at most, because 400 years
  have 146097 days.
\<close>

lemma div_bounds:
  fixes x k :: int
  assumes "0 < k"
  shows "k * (x div k) \<le> x" and "x < k * (x div k) + k"
proof -
  have "x = k * (x div k) + x mod k" by simp
  moreover have "0 \<le> x mod k" "x mod k < k" using assms by simp_all
  ultimately show "k * (x div k) \<le> x" and "x < k * (x div k) + k" by linarith+
qed

lemma DayFromYear_upper: "400 * DayFromYear (1970 + m) \<le> 146097 * m + 589"
proof -
  have "4 * ((m + 1) div 4) \<le> m + 1"
    using div_bounds(1) [of 4 "m + 1"] by simp
  moreover have "m + 69 < 100 * ((m + 69) div 100) + 100"
    using div_bounds(2) [of 100 "m + 69"] by simp
  moreover have "400 * ((m + 369) div 400) \<le> m + 369"
    using div_bounds(1) [of 400 "m + 369"] by simp
  moreover have "DayFromYear (1970 + m)
      = 365 * m + (m + 1) div 4 - (m + 69) div 100 + (m + 369) div 400"
    by (simp add: DayFromYear_def algebra_simps)
  ultimately show ?thesis by linarith
qed

lemma DayFromYear_lower: "146097 * m - 506 \<le> 400 * DayFromYear (1970 + m)"
proof -
  have "m + 1 < 4 * ((m + 1) div 4) + 4"
    using div_bounds(2) [of 4 "m + 1"] by simp
  moreover have "100 * ((m + 69) div 100) \<le> m + 69"
    using div_bounds(1) [of 100 "m + 69"] by simp
  moreover have "m + 369 < 400 * ((m + 369) div 400) + 400"
    using div_bounds(2) [of 400 "m + 369"] by simp
  moreover have "DayFromYear (1970 + m)
      = 365 * m + (m + 1) div 4 - (m + 69) div 100 + (m + 369) div 400"
    by (simp add: DayFromYear_def algebra_simps)
  ultimately show ?thesis by linarith
qed

text \<open>The year of a day is the one whose days the day lies among.\<close>

lemma YearFromDay_bounds:
  "DayFromYear (YearFromDay d) \<le> d \<and> d < DayFromYear (YearFromDay d + 1)"
proof -
  define n where "n = (400 * d) div 146097"
  have n: "146097 * n \<le> 400 * d" "400 * d < 146097 * n + 146097"
    using div_bounds [of 146097 "400 * d"] by (simp_all add: n_def)
  have lo: "DayFromYear (1970 + n - 1) \<le> d"
    using DayFromYear_upper [of "n - 1"] n(1) by (simp add: algebra_simps)
  have hi: "d < DayFromYear (1970 + n + 2)"
    using DayFromYear_lower [of "n + 2"] n(2) by (simp add: algebra_simps)
  show ?thesis
    using lo hi unfolding YearFromDay_def Let_def n_def [symmetric]
    by (simp add: algebra_simps) 
qed

text \<open>It is the largest such year, as ECMAScript defines it.\<close>

lemma YearFromDay_greatest: "DayFromYear y \<le> d \<Longrightarrow> y \<le> YearFromDay d"
proof (rule ccontr)
  assume a: "DayFromYear y \<le> d" and "\<not> y \<le> YearFromDay d"
  then have "YearFromDay d + 1 \<le> y" by simp
  then have "DayFromYear (YearFromDay d + 1) \<le> DayFromYear y"
    by (rule DayFromYear_mono)
  then show False using a YearFromDay_bounds [of d] by simp
qed

text \<open>Within a year, the year, the month and the day of the month of a day.\<close>

lemma YearFromDay_within:
  assumes "0 \<le> k" and "k < DaysInYear y"
  shows "YearFromDay (DayFromYear y + k) = y"
proof -
  let ?d = "DayFromYear y + k"
  have "y \<le> YearFromDay ?d"
    using assms(1) by (intro YearFromDay_greatest) simp
  moreover have "\<not> y + 1 \<le> YearFromDay ?d"
  proof
    assume "y + 1 \<le> YearFromDay ?d"
    then have "DayFromYear (y + 1) \<le> DayFromYear (YearFromDay ?d)"
      by (rule DayFromYear_mono)
    then show False
      using YearFromDay_bounds [of ?d] DayFromYear_Suc [of y] assms(2) by simp
  qed
  ultimately show ?thesis by simp
qed

lemma daysBeforeMonth_values:
  "daysBeforeMonth leap 0 = 0"
  "daysBeforeMonth leap 1 = 31"
  "daysBeforeMonth leap 2 = (if leap then 60 else 59)"
  "daysBeforeMonth leap 3 = (if leap then 91 else 90)"
  "daysBeforeMonth leap 4 = (if leap then 121 else 120)"
  "daysBeforeMonth leap 5 = (if leap then 152 else 151)"
  "daysBeforeMonth leap 6 = (if leap then 182 else 181)"
  "daysBeforeMonth leap 7 = (if leap then 213 else 212)"
  "daysBeforeMonth leap 8 = (if leap then 244 else 243)"
  "daysBeforeMonth leap 9 = (if leap then 274 else 273)"
  "daysBeforeMonth leap 10 = (if leap then 305 else 304)"
  "daysBeforeMonth leap 11 = (if leap then 335 else 334)"
  "daysBeforeMonth leap 12 = (if leap then 366 else 365)"
  by (simp_all add: daysBeforeMonth_def)

lemma monthOfDay_11:
  "monthOfDay leap dwy 11 =
     (if daysBeforeMonth leap 11 \<le> dwy then 11
      else if daysBeforeMonth leap 10 \<le> dwy then 10
      else if daysBeforeMonth leap 9 \<le> dwy then 9
      else if daysBeforeMonth leap 8 \<le> dwy then 8
      else if daysBeforeMonth leap 7 \<le> dwy then 7
      else if daysBeforeMonth leap 6 \<le> dwy then 6
      else if daysBeforeMonth leap 5 \<le> dwy then 5
      else if daysBeforeMonth leap 4 \<le> dwy then 4
      else if daysBeforeMonth leap 3 \<le> dwy then 3
      else if daysBeforeMonth leap 2 \<le> dwy then 2
      else if daysBeforeMonth leap 1 \<le> dwy then 1
      else 0)"
  by (simp add: eval_nat_numeral)

lemma month_cases:
  fixes m :: int
  assumes "0 \<le> m" and "m \<le> 11"
  shows "m = 0 \<or> m = 1 \<or> m = 2 \<or> m = 3 \<or> m = 4 \<or> m = 5 \<or> m = 6 \<or> m = 7
         \<or> m = 8 \<or> m = 9 \<or> m = 10 \<or> m = 11"
  using assms by arith

lemma monthOfDay_range: "0 \<le> monthOfDay leap dwy 11 \<and> monthOfDay leap dwy 11 \<le> 11"
  unfolding monthOfDay_11 by simp

lemma monthOfDay_within:
  assumes "0 \<le> m" and "m \<le> 11"
    and "daysBeforeMonth leap m \<le> dwy" and "dwy < daysBeforeMonth leap (m + 1)"
  shows "monthOfDay leap dwy 11 = m"
  using month_cases [OF assms(1,2)] assms(3,4)
  unfolding monthOfDay_11
  by (elim disjE) (simp_all add: daysBeforeMonth_values split: if_splits)

lemma length_digits: "length (digits k n) = k"
  by (induction k arbitrary: n) simp_all

lemma toDateOnlyString_isoDate:
  assumes "0 \<le> YearFromTime t" and "YearFromTime t \<le> 9999"
  shows "toDateOnlyString t = isoDate (YearFromTime t) (MonthFromTime t) (DateFromTime t)"
  using assms
  by (simp add: toDateOnlyString_def toISOString_def Let_def isoDate_def length_digits)

lemma daysBeforeMonth_le_year:
  assumes "0 \<le> m" and "m \<le> 11"
  shows "0 \<le> daysBeforeMonth (InLeapYear y) m
     \<and> daysBeforeMonth (InLeapYear y) m + 28 \<le> daysBeforeMonth (InLeapYear y) (m + 1)
     \<and> daysBeforeMonth (InLeapYear y) (m + 1) \<le> DaysInYear y"
proof -
  have y: "DaysInYear y = (if InLeapYear y then 366 else 365)"
    by (simp add: InLeapYear_def DaysInYear_def)
  show ?thesis
    using month_cases [OF assms] unfolding y
    by (elim disjE) (simp_all add: daysBeforeMonth_values)
qed

text \<open>The date of a time on the \<open>k\<close>-th day of a year, when that day is in month \<open>m\<close>.\<close>

lemma date_of_day:
  assumes m: "0 \<le> m" "m \<le> 11"
    and k: "daysBeforeMonth (InLeapYear y) m \<le> k" "k < daysBeforeMonth (InLeapYear y) (m + 1)"
    and t: "Day t = DayFromYear y + k"
  shows "YearFromTime t = y \<and> MonthFromTime t = m
     \<and> DateFromTime t = k - daysBeforeMonth (InLeapYear y) m + 1"
proof -
  have "0 \<le> k" "k < DaysInYear y"
    using daysBeforeMonth_le_year [OF m, of y] k by simp_all
  then have year: "YearFromTime t = y"
    unfolding YearFromTime_def t by (rule YearFromDay_within)
  have dwy: "DayWithinYear t = k"
    by (simp add: DayWithinYear_def year t)
  have month: "MonthFromTime t = m"
    unfolding MonthFromTime_def year dwy using m k by (rule monthOfDay_within)
  show ?thesis
    by (simp add: year month DateFromTime_def dwy)
qed

text \<open>
  A local midnight is on the same day in UTC when the zone is UTC or west of it, and on the
  day before when the zone is east of it.
\<close>

lemma Day_of_midnight_west:
  assumes "- msPerDay < tza" and "tza \<le> 0"
  shows "Day (UTC tza (MakeDate d 0)) = d"
proof -
  have "d * 86400000 - tza = 86400000 * d + (- tza)" by simp
  moreover have "0 \<le> - tza" "- tza < 86400000"
    using assms by (simp_all add: msPerDay_def)
  ultimately have "(d * 86400000 - tza) div 86400000 = d"
    by (metis int_div_pos_eq)
  then show ?thesis
    by (simp add: Day_def UTC_def MakeDate_def msPerDay_def)
qed

lemma Day_of_midnight_east:
  assumes "0 < tza" and "tza \<le> msPerDay"
  shows "Day (UTC tza (MakeDate d 0)) = d - 1"
proof -
  have "d * 86400000 - tza = 86400000 * (d - 1) + (86400000 - tza)" by simp
  moreover have "0 \<le> 86400000 - tza" "86400000 - tza < 86400000"
    using assms by (simp_all add: msPerDay_def)
  ultimately have "(d * 86400000 - tza) div 86400000 = d - 1"
    by (metis int_div_pos_eq)
  then show ?thesis
    by (simp add: Day_def UTC_def MakeDate_def msPerDay_def)
qed

lemma getMonth_range: "0 \<le> getMonth tza t \<and> getMonth tza t \<le> 11"
  by (simp add: getMonth_def MonthFromTime_def monthOfDay_range)

text \<open>The days \<^verbatim>\<open>new Date(y, m, 1)\<close> and \<^verbatim>\<open>new Date(y, m + 1, 0)\<close> are made from.\<close>

lemma MakeDay_first:
  assumes "0 \<le> m" and "m \<le> 11"
  shows "MakeDay y m 1 = DayFromYear y + daysBeforeMonth (InLeapYear y) m"
  using assms by (simp add: MakeDay_def Let_def)

lemma MakeDay_last:
  assumes "0 \<le> m" and "m \<le> 11"
  shows "MakeDay y (m + 1) 0 = DayFromYear y + daysBeforeMonth (InLeapYear y) (m + 1) - 1"
proof (cases "m = 11")
  case True
  have "DaysInYear y = daysBeforeMonth (InLeapYear y) 12"
    by (simp add: daysBeforeMonth_values InLeapYear_def DaysInYear_def)
  then show ?thesis
    using True DayFromYear_Suc [of y]
    by (simp add: MakeDay_def Let_def daysBeforeMonth_values)
next
  case False
  then have "(m + 1) div 12 = 0" "(m + 1) mod 12 = m + 1"
    using assms by simp_all
  then show ?thesis
    by (simp add: MakeDay_def Let_def)
qed

lemma newDate_year: "100 \<le> y \<Longrightarrow> newDate tza y m d = UTC tza (MakeDate (MakeDay y m d) 0)"
  by (simp add: newDate_def)

subsection \<open>The bounds of a month\<close>

text \<open>
  In UTC the bounds are the first and the last day of the month, for months of 28, 29, 30
  and 31 days, in leap years and others, the years 2000 and 2100 among them.
\<close>

lemma monthBounds_in_UTC:
  "monthBounds 0 1676462400000 = (''2023-02-01'', ''2023-02-28'')
   \<and> monthBounds 0 1707998400000 = (''2024-02-01'', ''2024-02-29'')
   \<and> monthBounds 0 1713182400000 = (''2024-04-01'', ''2024-04-30'')
   \<and> monthBounds 0 1703980800000 = (''2023-12-01'', ''2023-12-31'')
   \<and> monthBounds 0 950572800000 = (''2000-02-01'', ''2000-02-29'')
   \<and> monthBounds 0 4106332800000 = (''2100-02-01'', ''2100-02-28'')"
  by code_simp

text \<open>In UTC, the 15th of February 2024 and the 3rd of July 2024 have these bounds.\<close>

lemma monthBounds_example: "monthBounds 0 1707998400000 = (''2024-02-01'', ''2024-02-29'')"
  by code_simp

lemma monthBounds_example_july: "monthBounds 0 1720000000000 = (''2024-07-01'', ''2024-07-31'')"
  by code_simp

text \<open>
  Claim C5 expects the first and the last calendar day of the date's month. East of UTC the
  code returns neither: \<^verbatim>\<open>monthBounds\<close> builds the two days as local midnights and prints
  them with \<^verbatim>\<open>toISOString\<close>, which prints the UTC date. One hour east of UTC, noon of the
  15th of February 2024 is in February 2024 by \<^verbatim>\<open>getFullYear\<close> and \<^verbatim>\<open>getMonth\<close>, and
  the bounds returned are the 31st of January and the 28th of February: each a day early,
  the local midnight falling on the evening before in UTC.
\<close>

theorem monthBounds_east_of_UTC:
  "getFullYear 3600000 1707998400000 = 2024 \<and> getMonth 3600000 1707998400000 = 1
   \<and> monthBounds 3600000 1707998400000 = (''2024-01-31'', ''2024-02-28'')"
  by code_simp

text \<open>
  For every date from the year 100 to the year 9999: in UTC and in every zone at a constant
  offset west of it,
  \<^verbatim>\<open>monthBounds\<close> returns the first and the last day of the local month of the date; the
  number of the last day is the length of the month, from 28 to 31.
\<close>

lemma monthBounds_west_of_UTC:
  assumes "- msPerDay < tza" and "tza \<le> 0"
    and "100 \<le> getFullYear tza target" and "getFullYear tza target \<le> 9999"
  shows "let y = getFullYear tza target; m = getMonth tza target; leap = InLeapYear y
         in monthBounds tza target =
              (isoDate y m 1,
               isoDate y m (daysBeforeMonth leap (m + 1) - daysBeforeMonth leap m))"
proof -
  let ?y = "getFullYear tza target" and ?m = "getMonth tza target"
  let ?leap = "InLeapYear ?y"
  have m: "0 \<le> ?m" "?m \<le> 11"
    using getMonth_range [of tza target] by simp_all
  have b: "daysBeforeMonth ?leap ?m + 28 \<le> daysBeforeMonth ?leap (?m + 1)"
    using daysBeforeMonth_le_year [OF m, of ?y] by simp
  let ?start = "newDate tza ?y ?m 1" and ?end = "newDate tza ?y (?m + 1) 0"
  have "Day ?start = DayFromYear ?y + daysBeforeMonth ?leap ?m"
    by (simp add: newDate_year [OF assms(3)] Day_of_midnight_west [OF assms(1,2)]
        MakeDay_first [OF m])
  then have s: "YearFromTime ?start = ?y \<and> MonthFromTime ?start = ?m
      \<and> DateFromTime ?start
          = daysBeforeMonth ?leap ?m - daysBeforeMonth ?leap ?m + 1"
    using b by (intro date_of_day m) simp_all
  have "Day ?end = DayFromYear ?y + (daysBeforeMonth ?leap (?m + 1) - 1)"
    by (simp add: newDate_year [OF assms(3)] Day_of_midnight_west [OF assms(1,2)]
        MakeDay_last [OF m])
  then have e: "YearFromTime ?end = ?y \<and> MonthFromTime ?end = ?m
      \<and> DateFromTime ?end
          = daysBeforeMonth ?leap (?m + 1) - 1 - daysBeforeMonth ?leap ?m + 1"
    using b by (intro date_of_day m) simp_all
  have "toDateOnlyString ?start = isoDate ?y ?m 1"
    using s assms(3,4) by (simp add: toDateOnlyString_isoDate)
  moreover have "toDateOnlyString ?end
      = isoDate ?y ?m (daysBeforeMonth ?leap (?m + 1) - daysBeforeMonth ?leap ?m)"
    using e assms(3,4) by (simp add: toDateOnlyString_isoDate)
  ultimately show ?thesis
    by (simp add: monthBounds_def Let_def)
qed

text \<open>
  In every zone at a constant offset east of UTC, for every such date, the end it returns
  is the day before the
  last day of the month.
\<close>

lemma monthBounds_east_ends_early:
  assumes "0 < tza" and "tza \<le> msPerDay"
    and "100 \<le> getFullYear tza target" and "getFullYear tza target \<le> 9999"
  shows "let y = getFullYear tza target; m = getMonth tza target; leap = InLeapYear y
         in snd (monthBounds tza target) =
              isoDate y m (daysBeforeMonth leap (m + 1) - daysBeforeMonth leap m - 1)"
proof -
  let ?y = "getFullYear tza target" and ?m = "getMonth tza target"
  let ?leap = "InLeapYear ?y"
  have m: "0 \<le> ?m" "?m \<le> 11"
    using getMonth_range [of tza target] by simp_all
  have b: "daysBeforeMonth ?leap ?m + 28 \<le> daysBeforeMonth ?leap (?m + 1)"
    using daysBeforeMonth_le_year [OF m, of ?y] by simp
  let ?end = "newDate tza ?y (?m + 1) 0"
  have "Day ?end = DayFromYear ?y + (daysBeforeMonth ?leap (?m + 1) - 2)"
    by (simp add: newDate_year [OF assms(3)] Day_of_midnight_east [OF assms(1,2)]
        MakeDay_last [OF m])
  then have e: "YearFromTime ?end = ?y \<and> MonthFromTime ?end = ?m
      \<and> DateFromTime ?end
          = daysBeforeMonth ?leap (?m + 1) - 2 - daysBeforeMonth ?leap ?m + 1"
    using b by (intro date_of_day m) simp_all
  have "toDateOnlyString ?end
      = isoDate ?y ?m (daysBeforeMonth ?leap (?m + 1) - daysBeforeMonth ?leap ?m - 1)"
    using e assms(3,4) by (simp add: toDateOnlyString_isoDate)
  then show ?thesis
    by (simp add: monthBounds_def Let_def)
qed

subsection \<open>The totals of a month\<close>

lemma ids_feb: "map r_id (rowsBetween exampleDb ''2024-02-01'' ''2024-02-29'') = [1, 2, 3]"
  by code_simp

lemma rows_july: "rowsBetween exampleDb ''2024-07-01'' ''2024-07-31'' = []"
  by code_simp

lemma amounts_feb: "map r_amount (rowsBetween exampleDb ''2024-02-01'' ''2024-02-29'') = [1000, - 200, - 50]"
  by (simp add: rowsBetween_def exampleDb_def between_def)

lemma sum_list_if_filter:
  "sum_list (map (\<lambda>t. if P (f t) then f t else (0::real)) xs) = sum_list (filter P (map f xs))"
  by (induction xs) auto

lemma fetchMonthlyTotals_eq:
  "fetchMonthlyTotals no_faults tza db target =
     (let amounts = map r_amount
            (rowsBetween db (fst (monthBounds tza target)) (snd (monthBounds tza target)));
          inc = sum_list (filter (\<lambda>a. a \<ge> 0) amounts);
          exp = \<bar>sum_list (filter (\<lambda>a. a < 0) amounts)\<bar>
      in (Inr \<lparr>mtIncome = inc, mtExpenses = exp, mtBalance = inc - exp\<rparr>, db))"
proof -
  let ?rows = "rowsBetween db (fst (monthBounds tza target)) (snd (monthBounds tza target))"
  have i: "(case sqlSum (map (\<lambda>t. if r_amount t \<ge> 0 then r_amount t else 0) ?rows) of
              None \<Rightarrow> 0 | Some v \<Rightarrow> v)
      = sum_list (filter (\<lambda>a. a \<ge> 0) (map r_amount ?rows))"
    using sum_list_if_filter [of "\<lambda>a. a \<ge> 0" r_amount ?rows] by (simp add: sqlSum_def)
  have e: "(case sqlSum (map (\<lambda>t. if r_amount t < 0 then r_amount t else 0) ?rows) of
              None \<Rightarrow> 0 | Some v \<Rightarrow> v)
      = sum_list (filter (\<lambda>a. a < 0) (map r_amount ?rows))"
    using sum_list_if_filter [of "\<lambda>a. a < 0" r_amount ?rows] by (simp add: sqlSum_def)
  show ?thesis
    by (simp add: fetchMonthlyTotals_def split_def Let_def no_faults_def stmt_None
        selectTotals_def i e)
qed

text \<open>
  The sums are taken over the window that \<^verbatim>\<open>monthBounds\<close> returns. For every target date
  and time zone, \<^verbatim>\<open>fetchMonthlyTotals\<close> returns as income the sum of the amounts at least
  zero of the transactions whose \<^verbatim>\<open>occurred_on\<close> lies in that window, as expenses the
  absolute value of the sum of the amounts below zero there, and as balance income minus
  expenses; both sums are at least zero. When the amounts in the window are 1000, -200 and
  -50, in any order, the result is 1000, 250 and 750; when no transaction lies in the window
  it is 0, 0 and 0, never a null.
\<close>

lemma fetchMonthlyTotals_window_sums:
  "let amounts = map r_amount
         (rowsBetween db (fst (monthBounds tza target)) (snd (monthBounds tza target)));
       inc = sum_list (filter (\<lambda>a. a \<ge> 0) amounts);
       exp = \<bar>sum_list (filter (\<lambda>a. a < 0) amounts)\<bar>
   in fetchMonthlyTotals no_faults tza db target
        = (Inr \<lparr>mtIncome = inc, mtExpenses = exp, mtBalance = inc - exp\<rparr>, db)
      \<and> 0 \<le> inc \<and> 0 \<le> exp
      \<and> (mset amounts = {#1000, - 200, - 50#} \<longrightarrow>
           fetchMonthlyTotals no_faults tza db target
             = (Inr \<lparr>mtIncome = 1000, mtExpenses = 250, mtBalance = 750\<rparr>, db))
      \<and> (amounts = [] \<longrightarrow>
           fetchMonthlyTotals no_faults tza db target
             = (Inr \<lparr>mtIncome = 0, mtExpenses = 0, mtBalance = 0\<rparr>, db))"
proof -
  let ?amounts = "map r_amount
         (rowsBetween db (fst (monthBounds tza target)) (snd (monthBounds tza target)))"
  have nonneg: "0 \<le> sum_list (filter (\<lambda>a. a \<ge> 0) ?amounts)"
    by (rule sum_list_nonneg) simp
  have three: "fetchMonthlyTotals no_faults tza db target
             = (Inr \<lparr>mtIncome = 1000, mtExpenses = 250, mtBalance = 750\<rparr>, db)"
    if m: "mset ?amounts = {#1000, - 200, - 50#}"
  proof -
    have "sum_list (filter (\<lambda>a. a \<ge> 0) ?amounts)
        = sum_mset (filter_mset (\<lambda>a. a \<ge> 0) (mset ?amounts))"
      by (metis mset_filter sum_mset_sum_list)
    then have i: "sum_list (filter (\<lambda>a. a \<ge> 0) ?amounts) = 1000"
      unfolding m by simp
    have "sum_list (filter (\<lambda>a. a < 0) ?amounts)
        = sum_mset (filter_mset (\<lambda>a. a < 0) (mset ?amounts))"
      by (metis mset_filter sum_mset_sum_list)
    then have e: "sum_list (filter (\<lambda>a. a < 0) ?amounts) = - 250"
      unfolding m by simp
    show ?thesis
      unfolding fetchMonthlyTotals_eq Let_def i e by simp
  qed
  have none: "fetchMonthlyTotals no_faults tza db target
             = (Inr \<lparr>mtIncome = 0, mtExpenses = 0, mtBalance = 0\<rparr>, db)"
    if "?amounts = []"
    unfolding fetchMonthlyTotals_eq Let_def that by simp
  show ?thesis
    unfolding Let_def
    using fetchMonthlyTotals_eq [of tza db target] nonneg three none
    by (simp add: Let_def)
qed

lemma fetchMonthlyTotals_window_example:
  "mset (map r_amount (rowsBetween exampleDb (fst (monthBounds 0 1707998400000))
          (snd (monthBounds 0 1707998400000)))) = {#1000, - 200, - 50#}
   \<and> fetchMonthlyTotals no_faults 0 exampleDb 1707998400000
       = (Inr \<lparr>mtIncome = 1000, mtExpenses = 250, mtBalance = 750\<rparr>, exampleDb)
   \<and> map r_amount (rowsBetween exampleDb (fst (monthBounds 0 1720000000000))
          (snd (monthBounds 0 1720000000000))) = []
   \<and> fetchMonthlyTotals no_faults 0 exampleDb 1720000000000
       = (Inr \<lparr>mtIncome = 0, mtExpenses = 0, mtBalance = 0\<rparr>, exampleDb)"
proof -
  have h1: "mset (map r_amount (rowsBetween exampleDb (fst (monthBounds 0 1707998400000))
          (snd (monthBounds 0 1707998400000)))) = {#1000, - 200, - 50#}"
    by (simp add: monthBounds_example amounts_feb)
  have h2: "map r_amount (rowsBetween exampleDb (fst (monthBounds 0 1720000000000))
          (snd (monthBounds 0 1720000000000))) = []"
    by (simp add: monthBounds_example_july rows_july)
  have a: "fetchMonthlyTotals no_faults 0 exampleDb 1707998400000
       = (Inr \<lparr>mtIncome = 1000, mtExpenses = 250, mtBalance = 750\<rparr>, exampleDb)"
    using fetchMonthlyTotals_window_sums [of exampleDb 0 1707998400000, unfolded Let_def] h1 by blast
  have b: "fetchMonthlyTotals no_faults 0 exampleDb 1720000000000
       = (Inr \<lparr>mtIncome = 0, mtExpenses = 0, mtBalance = 0\<rparr>, exampleDb)"
    using fetchMonthlyTotals_window_sums [of exampleDb 0 1720000000000, unfolded Let_def] h2 by blast
  show ?thesis
    by (intro conjI h1 h2 a b)
qed

text \<open>
  In UTC and in every zone at a constant offset west of it, for a date from the year 100 to
  the year 9999, that window is the local month of the date, and the sums are those of the
  month.
\<close>

lemma fetchMonthlyTotals_west_of_UTC:
  assumes "- msPerDay < tza" and "tza \<le> 0"
    and "100 \<le> getFullYear tza target" and "getFullYear tza target \<le> 9999"
  shows "let y = getFullYear tza target; m = getMonth tza target; leap = InLeapYear y;
             amounts = map r_amount
               (rowsBetween db (isoDate y m 1)
                  (isoDate y m (daysBeforeMonth leap (m + 1) - daysBeforeMonth leap m)));
             inc = sum_list (filter (\<lambda>a. a \<ge> 0) amounts);
             exp = \<bar>sum_list (filter (\<lambda>a. a < 0) amounts)\<bar>
         in fetchMonthlyTotals no_faults tza db target
              = (Inr \<lparr>mtIncome = inc, mtExpenses = exp, mtBalance = inc - exp\<rparr>, db)"
  using monthBounds_west_of_UTC [OF assms]
  by (simp add: fetchMonthlyTotals_eq Let_def)

text \<open>One hour east of UTC, noon of the 15th of February 2024 and its window.\<close>

lemma february_one_hour_east:
  "getFullYear 3600000 1707998400000 = 2024 \<and> getMonth 3600000 1707998400000 = 1"
  by code_simp

lemma monthBounds_one_hour_east:
  "monthBounds 3600000 1707998400000 = (''2024-01-31'', ''2024-02-28'')"
  by code_simp

lemma amounts_one_hour_east:
  "map r_amount (rowsBetween exampleDb ''2024-01-31'' ''2024-02-28'') = [1000, - 200]"
  by (simp add: rowsBetween_def exampleDb_def between_def)

text \<open>
  Claim C3 expects the sums over the transactions of the date's month: for February 2024 of
  the example store, which holds exactly the amounts 1000, -200 and -50, an income of 1000,
  expenses of 250 and a balance of 750. One hour east of UTC the code returns 1000, 200 and
  800 for a date in that February: the window \<^verbatim>\<open>monthBounds\<close> gives it ends on the 28th,
  and the -50 of the 29th is left out.
\<close>

theorem fetchMonthlyTotals_east_of_UTC:
  "getFullYear 3600000 1707998400000 = 2024 \<and> getMonth 3600000 1707998400000 = 1
   \<and> map (\<lambda>t. (r_occurred_on t, r_amount t)) (transactions exampleDb)
       = [(''2024-02-01'', 1000), (''2024-02-10'', - 200), (''2024-02-29'', - 50),
          (''2024-03-01'', - 8)]
   \<and> fetchMonthlyTotals no_faults 3600000 exampleDb 1707998400000
       = (Inr \<lparr>mtIncome = 1000, mtExpenses = 200, mtBalance = 800\<rparr>, exampleDb)"
proof -
  have a: "map (\<lambda>t. (r_occurred_on t, r_amount t)) (transactions exampleDb)
       = [(''2024-02-01'', 1000), (''2024-02-10'', - 200), (''2024-02-29'', - 50),
          (''2024-03-01'', - 8)]"
    by (simp add: exampleDb_def)
  have b: "fetchMonthlyTotals no_faults 3600000 exampleDb 1707998400000
       = (Inr \<lparr>mtIncome = 1000, mtExpenses = 200, mtBalance = 800\<rparr>, exampleDb)"
    unfolding fetchMonthlyTotals_eq Let_def
    by (simp add: monthBounds_one_hour_east amounts_one_hour_east)
  show ?thesis
    using february_one_hour_east a b by simp
qed

subsection \<open>The totals of a month by category\<close>

text \<open>
  The order of \<^verbatim>\<open>ORDER BY c.type DESC, total DESC\<close> puts income before expense and,
  within a type, the larger sum first; \<open>orderRows\<close> sorts by it and keeps the rows.
\<close>

lemma textLe_types:
  "textLe (typeText a) (typeText b) = (a = Expense \<or> b = Income)"
  by (cases a; cases b) simp_all

lemma typeText_inj: "(typeText a = typeText b) = (a = b)"
  by (cases a; cases b) simp_all

lemma orderedBefore_iff:
  "orderedBefore a b =
     (if snd (snd (fst a)) = snd (snd (fst b)) then snd b \<le> snd a
      else snd (snd (fst a)) = Income)"
  by (cases "snd (snd (fst a))"; cases "snd (snd (fst b))")
     (simp_all add: orderedBefore_def Let_def)

lemma orderedBefore_total: "orderedBefore a b \<or> orderedBefore b a"
  by (cases "snd (snd (fst a))"; cases "snd (snd (fst b))") (auto simp: orderedBefore_iff)

lemma orderedBefore_trans: "orderedBefore a b \<Longrightarrow> orderedBefore b c \<Longrightarrow> orderedBefore a c"
  by (cases "snd (snd (fst a))"; cases "snd (snd (fst b))"; cases "snd (snd (fst c))")
     (auto simp: orderedBefore_iff)

lemma set_insertOrdered: "set (insertOrdered a xs) = insert a (set xs)"
  by (induction xs) auto

lemma mset_insertOrdered: "mset (insertOrdered a xs) = add_mset a (mset xs)"
  by (induction xs) auto

lemma sorted_insertOrdered:
  "sorted_wrt orderedBefore xs \<Longrightarrow> sorted_wrt orderedBefore (insertOrdered a xs)"
proof (induction xs)
  case Nil
  then show ?case by simp
next
  case (Cons b bs)
  show ?case
  proof (cases "orderedBefore a b")
    case True
    then have "\<forall>x \<in> set bs. orderedBefore a x"
      using Cons.prems orderedBefore_trans by auto
    then show ?thesis using True Cons.prems by simp
  next
    case False
    then have "orderedBefore b a"
      using orderedBefore_total by blast
    then show ?thesis
      using False Cons by (auto simp: set_insertOrdered)
  qed
qed

lemma sorted_orderRows: "sorted_wrt orderedBefore (orderRows rows)"
  unfolding orderRows_def by (induction rows) (simp_all add: sorted_insertOrdered)

lemma set_orderRows: "set (orderRows rows) = set rows"
  unfolding orderRows_def by (induction rows) (simp_all add: set_insertOrdered)

lemma mset_orderRows: "mset (orderRows rows) = mset rows"
  unfolding orderRows_def by (induction rows) (simp_all add: mset_insertOrdered)

lemma distinct_map_orderRows: "distinct (map f (orderRows rows)) = distinct (map f rows)"
proof -
  have "mset (map f (orderRows rows)) = mset (map f rows)"
    by (simp add: mset_orderRows)
  then show ?thesis
    by (rule mset_eq_imp_distinct_iff)
qed

lemma sorted_wrt_map_mono:
  assumes "sorted_wrt P xs" and "\<And>a b. P a b \<Longrightarrow> Q (f a) (f b)"
  shows "sorted_wrt Q (map f xs)"
  using assms by (induction xs) auto

text \<open>
  The join pairs a transaction of the window with the category its \<^verbatim>\<open>category_id\<close>
  names; with ids that are keys, that is one category at most.
\<close>

lemma in_joined:
  "((t, c) \<in> set (concat (map (\<lambda>t. case r_category_id t of
                         None \<Rightarrow> []
                       | Some cid \<Rightarrow> map (\<lambda>c. (t, c)) (filter (\<lambda>c. cId c = cid) cs)) ts))) =
     (t \<in> set ts \<and> c \<in> set cs \<and> r_category_id t = Some (cId c))"
  by (induction ts) (auto split: option.splits)

lemma in_joinedRows:
  "((t, c) \<in> set (joinedRows db s e)) =
     (t \<in> set (rowsBetween db s e) \<and> c \<in> set (categories db) \<and> r_category_id t = Some (cId c))"
  unfolding joinedRows_def by (rule in_joined)

lemma filter_same_id:
  "distinct (map cId cs) \<Longrightarrow> c \<in> set cs \<Longrightarrow> filter (\<lambda>x. cId x = cId c) cs = [c]"
proof (induction cs)
  case Nil
  then show ?case by simp
next
  case (Cons x xs)
  show ?case
  proof (cases "x = c")
    case True
    have "cId c \<notin> cId ` set xs"
      using Cons.prems(1) True by simp
    then have "\<forall>y \<in> set xs. cId y \<noteq> cId c"
      by (metis imageI)
    then have "filter (\<lambda>x. cId x = cId c) xs = []"
      by (simp add: filter_empty_conv)
    then show ?thesis using True by simp
  next
    case False
    then have c: "c \<in> set xs" using Cons.prems(2) by simp
    have "cId x \<notin> cId ` set xs"
      using Cons.prems(1) by simp
    then have "cId x \<noteq> cId c" using c by (metis imageI)
    then show ?thesis using Cons c by simp
  qed
qed

lemma same_id_same_category:
  assumes "distinct (map cId cs)" and "c \<in> set cs" and "x \<in> set cs" and "cId x = cId c"
  shows "x = c"
proof -
  have "x \<in> set (filter (\<lambda>y. cId y = cId c) cs)"
    using assms(3,4) by simp
  then show ?thesis
    unfolding filter_same_id [OF assms(1,2)] by simp
qed

text \<open>
  The amounts \<^verbatim>\<open>SUM\<close> adds up for the group of a category are those of the
  category's transactions in the window.
\<close>

lemma group_amounts_aux:
  assumes "distinct (map cId cs)" and "c \<in> set cs"
  shows "map (\<lambda>(t, c). r_amount t)
           (filter (\<lambda>j. (case j of (t, x) \<Rightarrow> (cId x, cName x, cType x)) = (cId c, cName c, cType c))
              (concat (map (\<lambda>t. case r_category_id t of
                         None \<Rightarrow> []
                       | Some cid \<Rightarrow> map (\<lambda>c. (t, c)) (filter (\<lambda>c. cId c = cid) cs)) ts)))
         = map r_amount (filter (\<lambda>t. r_category_id t = Some (cId c)) ts)"
proof (induction ts)
  case Nil
  then show ?case by simp
next
  case (Cons t ts)
  show ?case
  proof (cases "r_category_id t")
    case None
    then show ?thesis using Cons by simp
  next
    case (Some cid)
    show ?thesis
    proof (cases "cid = cId c")
      case True
      then show ?thesis
        using Some Cons filter_same_id [OF assms] by simp
    next
      case False
      have "filter (\<lambda>j. (case j of (t, x) \<Rightarrow> (cId x, cName x, cType x)) = (cId c, cName c, cType c))
              (map (\<lambda>c. (t, c)) (filter (\<lambda>c. cId c = cid) cs)) = []"
        using False by (auto simp: filter_empty_conv)
      then show ?thesis
        using Some False Cons by simp
    qed
  qed
qed

lemma group_amounts:
  assumes "distinct (map cId (categories db))" and "c \<in> set (categories db)"
  shows "map (\<lambda>(t, c). r_amount t)
           (filter (\<lambda>j. (case j of (t, x) \<Rightarrow> (cId x, cName x, cType x)) = (cId c, cName c, cType c))
              (joinedRows db s e))
         = map r_amount (filter (\<lambda>t. r_category_id t = Some (cId c)) (rowsBetween db s e))"
  unfolding joinedRows_def by (rule group_amounts_aux [OF assms])

lemma joined_keys:
  "set (map (\<lambda>(t, c). (cId c, cName c, cType c)) (joinedRows db s e)) =
     {(cId c, cName c, cType c) | c. c \<in> set (categories db)
        \<and> filter (\<lambda>t. r_category_id t = Some (cId c)) (rowsBetween db s e) \<noteq> []}"
proof -
  have "set (joinedRows db s e) =
      {(t, c). t \<in> set (rowsBetween db s e) \<and> c \<in> set (categories db)
         \<and> r_category_id t = Some (cId c)}"
    using in_joinedRows [of _ _ db s e] by auto
  then show ?thesis
    by (auto simp: filter_empty_conv image_iff)
qed

text \<open>The rows of the grouped query: one for each category with a transaction in the window.\<close>

lemma set_selectTotalsByCategory:
  assumes "distinct (map cId (categories db))"
  shows "set (selectTotalsByCategory db s e) =
     {((cId c, cName c, cType c),
       sum_list (map r_amount (filter (\<lambda>t. r_category_id t = Some (cId c)) (rowsBetween db s e))))
      | c. c \<in> set (categories db)
        \<and> filter (\<lambda>t. r_category_id t = Some (cId c)) (rowsBetween db s e) \<noteq> []}"
proof -
  let ?key = "\<lambda>(t, c). (cId c, cName c, cType c)"
  let ?sum = "\<lambda>g. sum_list (map (\<lambda>(t, c). r_amount t)
                 (filter (\<lambda>j. ?key j = g) (joinedRows db s e)))"
  let ?linked = "\<lambda>c. filter (\<lambda>t. r_category_id t = Some (cId c)) (rowsBetween db s e)"
  have "set (selectTotalsByCategory db s e)
      = (\<lambda>g. (g, ?sum g)) ` set (map ?key (joinedRows db s e))"
    by (simp add: selectTotalsByCategory_def Let_def set_orderRows)
  also have "\<dots> = (\<lambda>g. (g, ?sum g)) `
      {(cId c, cName c, cType c) | c. c \<in> set (categories db) \<and> ?linked c \<noteq> []}"
    unfolding joined_keys ..
  also have "\<dots> = {((cId c, cName c, cType c), ?sum (cId c, cName c, cType c))
      | c. c \<in> set (categories db) \<and> ?linked c \<noteq> []}"
    by auto
  also have "\<dots> = {((cId c, cName c, cType c), sum_list (map r_amount (?linked c)))
      | c. c \<in> set (categories db) \<and> ?linked c \<noteq> []}"
    using group_amounts [OF assms, of _ s e] by (metis (no_types, lifting))
  finally show ?thesis .
qed

lemma distinct_ids_selectTotalsByCategory:
  assumes "distinct (map cId (categories db))"
  shows "distinct (map (\<lambda>r. fst (fst r)) (selectTotalsByCategory db s e))"
proof -
  let ?key = "\<lambda>(t, c). (cId c, cName c, cType c)"
  let ?keys = "remdups (map ?key (joinedRows db s e))"
  have inj: "inj_on fst (set ?keys)"
  proof (rule inj_onI)
    fix a b
    assume a: "a \<in> set ?keys" and b: "b \<in> set ?keys" and eq: "fst a = fst b"
    obtain ca where ca: "ca \<in> set (categories db)" "a = (cId ca, cName ca, cType ca)"
      using a joined_keys [of db s e] by auto
    obtain cb where cb: "cb \<in> set (categories db)" "b = (cId cb, cName cb, cType cb)"
      using b joined_keys [of db s e] by auto
    have "ca = cb"
      using same_id_same_category [OF assms cb(1) ca(1)] eq ca(2) cb(2) by simp
    then show "a = b" using ca(2) cb(2) by simp
  qed
  have "distinct (map fst ?keys)"
    using inj by (simp add: distinct_map)
  then have "distinct (map (\<lambda>r. fst (fst r)) (map (\<lambda>g. (g, X g)) ?keys))" for X :: "int \<times> string \<times> CategoryType \<Rightarrow> real"
    by (simp add: comp_def)
  then show ?thesis
    by (simp add: selectTotalsByCategory_def Let_def distinct_map_orderRows)
qed

lemma totals_example:
  "fetchMonthlyTotalsByCategory no_faults 0 exampleDb 1707998400000 =
     (Inr [\<lparr>ctCategoryId = 1, ctCategoryName = ''Salary'', ctCategoryType = Income, ctTotal = 1000\<rparr>,
           \<lparr>ctCategoryId = 2, ctCategoryName = ''Groceries'', ctCategoryType = Expense, ctTotal = 200\<rparr>],
      exampleDb)"
  by (simp add: fetchMonthlyTotalsByCategory_def monthBounds_example no_faults_def stmt_None
      selectTotalsByCategory_def joinedRows_def rowsBetween_def between_def exampleDb_def
      orderRows_def orderedBefore_def Let_def)

text \<open>
  The groups are taken over the window that \<^verbatim>\<open>monthBounds\<close> returns. In a store whose
  category ids are distinct (\<^verbatim>\<open>id\<close> is the primary key), for every target date and time
  zone, \<^verbatim>\<open>fetchMonthlyTotalsByCategory\<close> returns one row for each category that some
  transaction of that window names, and no other row: a transaction without a category, or
  with one that does not exist, adds to no row. The row carries the category's id, name and
  type; its total is the sum of the stored amounts of the category's transactions in the
  window for an income category and the negation of that sum for an expense category. The
  rows are ordered by the text of the type descending and, within a type, by the stored sum
  descending.
\<close>

lemma fetchMonthlyTotalsByCategory_window_groups:
  assumes "distinct (map cId (categories db))"
  shows "let window = rowsBetween db (fst (monthBounds tza target)) (snd (monthBounds tza target));
             stored = (\<lambda>c. map r_amount (filter (\<lambda>t. r_category_id t = Some (cId c)) window));
             raw = (\<lambda>r. if ctCategoryType r = Expense then - ctTotal r else ctTotal r)
         in \<exists>rows. fetchMonthlyTotalsByCategory no_faults tza db target = (Inr rows, db)
              \<and> distinct (map ctCategoryId rows)
              \<and> set rows =
                  {\<lparr>ctCategoryId = cId c, ctCategoryName = cName c, ctCategoryType = cType c,
                    ctTotal = (if cType c = Expense then - sum_list (stored c)
                               else sum_list (stored c))\<rparr>
                   | c. c \<in> set (categories db) \<and> stored c \<noteq> []}
              \<and> sorted_wrt
                    (\<lambda>a b. textLe (typeText (ctCategoryType b)) (typeText (ctCategoryType a))
                           \<and> (ctCategoryType a = ctCategoryType b \<longrightarrow> raw b \<le> raw a))
                    rows"
proof -
  let ?s = "fst (monthBounds tza target)" and ?e = "snd (monthBounds tza target)"
  let ?window = "rowsBetween db ?s ?e"
  let ?stored = "\<lambda>c. map r_amount (filter (\<lambda>t. r_category_id t = Some (cId c)) ?window)"
  let ?raw = "\<lambda>r. if ctCategoryType r = Expense then - ctTotal r else ctTotal r"
  let ?out = "\<lambda>((category_id, category_name, category_type), total).
                \<lparr>ctCategoryId = category_id, ctCategoryName = category_name,
                 ctCategoryType = category_type,
                 ctTotal = (if category_type = Expense then - total else total)\<rparr>"
  let ?rows = "map ?out (selectTotalsByCategory db ?s ?e)"
  have run: "fetchMonthlyTotalsByCategory no_faults tza db target = (Inr ?rows, db)"
    by (simp add: fetchMonthlyTotalsByCategory_def split_def Let_def no_faults_def stmt_None)
  have "(\<lambda>x. ctCategoryId (?out x)) = (\<lambda>r. fst (fst r))"
    by (auto simp: fun_eq_iff)
  then have "map ctCategoryId ?rows = map (\<lambda>r. fst (fst r)) (selectTotalsByCategory db ?s ?e)"
    by (simp add: comp_def)
  then have d: "distinct (map ctCategoryId ?rows)"
    using distinct_ids_selectTotalsByCategory [OF assms, of ?s ?e] by (simp only:)
  have "set ?rows = ?out ` set (selectTotalsByCategory db ?s ?e)"
    by simp
  also have "\<dots> =
      {\<lparr>ctCategoryId = cId c, ctCategoryName = cName c, ctCategoryType = cType c,
        ctTotal = (if cType c = Expense then - sum_list (?stored c) else sum_list (?stored c))\<rparr>
       | c. c \<in> set (categories db) \<and> ?stored c \<noteq> []}"
    unfolding set_selectTotalsByCategory [OF assms] by (auto simp: image_iff)
  finally have s: "set ?rows =
      {\<lparr>ctCategoryId = cId c, ctCategoryName = cName c, ctCategoryType = cType c,
        ctTotal = (if cType c = Expense then - sum_list (?stored c) else sum_list (?stored c))\<rparr>
       | c. c \<in> set (categories db) \<and> ?stored c \<noteq> []}" .
  have so: "sorted_wrt orderedBefore (selectTotalsByCategory db ?s ?e)"
    by (simp add: selectTotalsByCategory_def Let_def sorted_orderRows)
  have o: "sorted_wrt
             (\<lambda>a b. textLe (typeText (ctCategoryType b)) (typeText (ctCategoryType a))
                    \<and> (ctCategoryType a = ctCategoryType b \<longrightarrow> ?raw b \<le> ?raw a))
             ?rows"
  proof (rule sorted_wrt_map_mono [OF so])
    fix a b :: totalRow
    assume "orderedBefore a b"
    then show "textLe (typeText (ctCategoryType (?out b))) (typeText (ctCategoryType (?out a)))
        \<and> (ctCategoryType (?out a) = ctCategoryType (?out b) \<longrightarrow> ?raw (?out b) \<le> ?raw (?out a))"
      by (cases "snd (snd (fst a))"; cases "snd (snd (fst b))")
         (auto simp: orderedBefore_iff split_def textLe_types)
  qed
  show ?thesis
    unfolding Let_def
    by (rule exI [of _ ?rows]) (intro conjI run d s o)
qed

text \<open>
  February 2024 of the example store: Salary with 1000 before Groceries with 200, the
  negation of the stored -200; the transaction without a category is in no row.
\<close>

lemma fetchMonthlyTotalsByCategory_window_example:
  "distinct (map cId (categories exampleDb))
   \<and> (\<exists>rows. fetchMonthlyTotalsByCategory no_faults 0 exampleDb 1707998400000
                = (Inr rows, exampleDb)
         \<and> rows =
             [\<lparr>ctCategoryId = 1, ctCategoryName = ''Salary'', ctCategoryType = Income,
               ctTotal = 1000\<rparr>,
              \<lparr>ctCategoryId = 2, ctCategoryName = ''Groceries'', ctCategoryType = Expense,
               ctTotal = 200\<rparr>]
         \<and> distinct (map ctCategoryId rows)
         \<and> sorted_wrt
              (\<lambda>a b. textLe (typeText (ctCategoryType b)) (typeText (ctCategoryType a))
                     \<and> (ctCategoryType a = ctCategoryType b \<longrightarrow>
                          (if ctCategoryType b = Expense then - ctTotal b else ctTotal b)
                            \<le> (if ctCategoryType a = Expense then - ctTotal a else ctTotal a)))
              rows)"
proof -
  have h: "distinct (map cId (categories exampleDb))"
    by (simp add: exampleDb_def)
  obtain rows where rows:
      "fetchMonthlyTotalsByCategory no_faults 0 exampleDb 1707998400000 = (Inr rows, exampleDb)"
      "distinct (map ctCategoryId rows)"
      "sorted_wrt
         (\<lambda>a b. textLe (typeText (ctCategoryType b)) (typeText (ctCategoryType a))
                \<and> (ctCategoryType a = ctCategoryType b \<longrightarrow>
                     (if ctCategoryType b = Expense then - ctTotal b else ctTotal b)
                       \<le> (if ctCategoryType a = Expense then - ctTotal a else ctTotal a)))
         rows"
    using fetchMonthlyTotalsByCategory_window_groups [OF h, of 0 1707998400000, unfolded Let_def]
    by blast
  have "rows =
     [\<lparr>ctCategoryId = 1, ctCategoryName = ''Salary'', ctCategoryType = Income, ctTotal = 1000\<rparr>,
      \<lparr>ctCategoryId = 2, ctCategoryName = ''Groceries'', ctCategoryType = Expense,
       ctTotal = 200\<rparr>]"
    using rows(1) unfolding totals_example by simp
  then show ?thesis
    using h rows by blast
qed

text \<open>In UTC the report of February 2024 on the second example store has the one row of February.\<close>

lemma totals_monthEnd_in_UTC:
  "fetchMonthlyTotalsByCategory no_faults 0 monthEndDb 1707998400000
       = (Inr [\<lparr>ctCategoryId = 2, ctCategoryName = ''Groceries'', ctCategoryType = Expense,
                 ctTotal = 250\<rparr>],
          monthEndDb)"
  by (simp add: fetchMonthlyTotalsByCategory_def monthBounds_example no_faults_def
      stmt_None selectTotalsByCategory_def joinedRows_def rowsBetween_def between_def
      monthEndDb_def orderRows_def orderedBefore_def Let_def)

text \<open>
  Claim C7 expects the groups of the transactions of the date's month only: for February
  2024 of the second example store, the one row of Groceries with the total 250. One hour
  east of UTC the code returns, for a date in that February, a row for the salary of the
  31st of January and Groceries with 200: the window \<^verbatim>\<open>monthBounds\<close> gives it runs from
  the 31st of January to the 28th of February.
\<close>

theorem fetchMonthlyTotalsByCategory_east_of_UTC:
  "getFullYear 3600000 1707998400000 = 2024 \<and> getMonth 3600000 1707998400000 = 1
   \<and> map (\<lambda>t. (r_occurred_on t, r_category_id t, r_amount t)) (transactions monthEndDb)
       = [(''2024-01-31'', Some 1, 500), (''2024-02-10'', Some 2, - 200),
          (''2024-02-29'', Some 2, - 50)]
   \<and> fetchMonthlyTotalsByCategory no_faults 3600000 monthEndDb 1707998400000
       = (Inr [\<lparr>ctCategoryId = 1, ctCategoryName = ''Salary'', ctCategoryType = Income,
                 ctTotal = 500\<rparr>,
               \<lparr>ctCategoryId = 2, ctCategoryName = ''Groceries'', ctCategoryType = Expense,
                 ctTotal = 200\<rparr>],
          monthEndDb)"
proof -
  have a: "map (\<lambda>t. (r_occurred_on t, r_category_id t, r_amount t)) (transactions monthEndDb)
       = [(''2024-01-31'', Some 1, 500), (''2024-02-10'', Some 2, - 200),
          (''2024-02-29'', Some 2, - 50)]"
    by (simp add: monthEndDb_def)
  have b: "fetchMonthlyTotalsByCategory no_faults 3600000 monthEndDb 1707998400000
       = (Inr [\<lparr>ctCategoryId = 1, ctCategoryName = ''Salary'', ctCategoryType = Income,
                 ctTotal = 500\<rparr>,
               \<lparr>ctCategoryId = 2, ctCategoryName = ''Groceries'', ctCategoryType = Expense,
                 ctTotal = 200\<rparr>],
          monthEndDb)"
    by (simp add: fetchMonthlyTotalsByCategory_def monthBounds_one_hour_east no_faults_def
        stmt_None selectTotalsByCategory_def joinedRows_def rowsBetween_def between_def
        monthEndDb_def orderRows_def orderedBefore_def Let_def)
  show ?thesis
    using february_one_hour_east a b by simp
qed

end
